theory Spec2Isabelle
  imports Complex_Main "HOL-Library.Sublist"
begin

section \<open>Values of the program\<close>

text \<open>
  The program is \<^verbatim>\<open>ETL.py\<close>: \<^verbatim>\<open>fetch_data\<close> pages through a remote API with a
  bounded retry per page, \<^verbatim>\<open>parse_records\<close> flattens one page, and
  \<^verbatim>\<open>load_to_bigquery\<close> submits one load job.

  A decoded response body is an arbitrary JSON value, as \<^verbatim>\<open>response.json()\<close>
  returns it. A Python dict is an association list read with \<open>map_of\<close>. A float is
  stood for by the rational it denotes: the program never computes with one, it only
  tests it for truth and passes it on. Logging is left out of the fetcher and the
  flattening, where no property depends on it, and kept in the loader.
\<close>

datatype json =
    JNull
  | JBool bool
  | JInt int
  | JFloat rat
  | JStr string
  | JList "json list"
  | JDict "(string \<times> json) list"

text \<open>
  The exceptions the program can meet. \<open>AttributeError\<close> is \<^verbatim>\<open>x.get(...)\<close> or
  \<^verbatim>\<open>x.columns\<close> on a value without that attribute, \<open>TypeError\<close> is \<^verbatim>\<open>for y in x\<close> on a
  value that is not iterable, \<open>ValueError\<close> carries its message, \<open>OverflowError\<close>
  is a number too large for a conversion, and \<open>ExternalError\<close> is whatever a library
  behind the program raises.
\<close>

datatype exn =
    AttributeError
  | TypeError
  | ValueError string
  | OverflowError
  | ExternalError string

text \<open>\<^verbatim>\<open>x.get(key, default)\<close>: only a dict has the method.\<close>

fun py_get :: "json \<Rightarrow> string \<Rightarrow> json \<Rightarrow> exn + json" where
  "py_get (JDict kvs) k d = Inr (case map_of kvs k of None \<Rightarrow> d | Some v \<Rightarrow> v)"
| "py_get _ k d = Inl AttributeError"

text \<open>
  \<^verbatim>\<open>for y in x\<close>: a list gives its elements, a string its characters (each a string
  of length one), a dict its keys; \<^verbatim>\<open>None\<close>, a boolean and a number are not iterable.
\<close>

fun py_iter :: "json \<Rightarrow> exn + json list" where
  "py_iter (JList xs) = Inr xs"
| "py_iter (JStr s) = Inr (map (\<lambda>c. JStr [c]) s)"
| "py_iter (JDict kvs) = Inr (map (\<lambda>kv. JStr (fst kv)) kvs)"
| "py_iter _ = Inl TypeError"

text \<open>Python's truth value of a JSON value, as \<^verbatim>\<open>while x:\<close> and \<^verbatim>\<open>if x:\<close> test it.\<close>

fun truthy :: "json \<Rightarrow> bool" where
  "truthy JNull = False"
| "truthy (JBool b) = b"
| "truthy (JInt i) = (i \<noteq> 0)"
| "truthy (JFloat r) = (r \<noteq> 0)"
| "truthy (JStr s) = (s \<noteq> [])"
| "truthy (JList xs) = (xs \<noteq> [])"
| "truthy (JDict kvs) = (kvs \<noteq> [])"

section \<open>Flattening: parse_records\<close>

text \<open>The flat row \<^verbatim>\<open>parse_records\<close> builds for one metric (a dict of eight keys).\<close>

record flat_record =
  campaign :: json
  ad_name :: json
  date :: json
  cost :: json
  impressions :: json
  clicks :: json
  conversions :: json
  revenue :: json

text \<open>
  The body of the innermost \<^verbatim>\<open>try\<close>: six calls of \<^verbatim>\<open>metric.get\<close>, the first failure
  leaving the block.
\<close>

definition parse_metric :: "json \<Rightarrow> json \<Rightarrow> json \<Rightarrow> exn + flat_record" where
  "parse_metric campaign_name ad_name' metric =
     (case py_get metric ''date'' (JStr '''') of Inl e \<Rightarrow> Inl e | Inr d \<Rightarrow>
     (case py_get metric ''cost'' (JInt 0) of Inl e \<Rightarrow> Inl e | Inr c \<Rightarrow>
     (case py_get metric ''impressions'' (JInt 0) of Inl e \<Rightarrow> Inl e | Inr i \<Rightarrow>
     (case py_get metric ''clicks'' (JInt 0) of Inl e \<Rightarrow> Inl e | Inr k \<Rightarrow>
     (case py_get metric ''conversions'' (JInt 0) of Inl e \<Rightarrow> Inl e | Inr v \<Rightarrow>
     (case py_get metric ''revenue'' (JInt 0) of Inl e \<Rightarrow> Inl e | Inr r \<Rightarrow>
        Inr \<lparr>campaign = campaign_name, ad_name = ad_name', date = d, cost = c,
             impressions = i, clicks = k, conversions = v, revenue = r\<rparr>))))))"

text \<open>
  \<^verbatim>\<open>for metric in metrics\<close>, over the elements already obtained: the whole body is
  inside the \<^verbatim>\<open>try\<close>, so a failing metric is logged and skipped.
\<close>

fun metrics_loop :: "json \<Rightarrow> json \<Rightarrow> json list \<Rightarrow> flat_record list \<Rightarrow> flat_record list" where
  "metrics_loop campaign_name ad_name' [] all_records = all_records"
| "metrics_loop campaign_name ad_name' (metric # rest) all_records =
     (case parse_metric campaign_name ad_name' metric of
        Inl e \<Rightarrow> metrics_loop campaign_name ad_name' rest all_records
      | Inr record \<Rightarrow> metrics_loop campaign_name ad_name' rest (all_records @ [record]))"

text \<open>
  \<^verbatim>\<open>for ad in ads\<close>: the two \<^verbatim>\<open>ad.get\<close> calls are inside the \<^verbatim>\<open>try\<close>; the
  \<^verbatim>\<open>for metric in metrics\<close> statement is after it, so a value of \<^verbatim>\<open>metrics\<close> that is
  not iterable raises out of the function.
\<close>

fun ads_loop :: "json \<Rightarrow> json list \<Rightarrow> flat_record list \<Rightarrow> exn + flat_record list" where
  "ads_loop campaign_name [] all_records = Inr all_records"
| "ads_loop campaign_name (ad # rest) all_records =
     (case py_get ad ''name'' (JStr '''') of
        Inl e \<Rightarrow> ads_loop campaign_name rest all_records
      | Inr ad_name' \<Rightarrow>
         (case py_get ad ''metrics'' (JList []) of
            Inl e \<Rightarrow> ads_loop campaign_name rest all_records
          | Inr metrics \<Rightarrow>
             (case py_iter metrics of
                Inl e \<Rightarrow> Inl e
              | Inr ms \<Rightarrow>
                 ads_loop campaign_name rest (metrics_loop campaign_name ad_name' ms all_records))))"

text \<open>\<^verbatim>\<open>for campaign in campaigns\<close>, of the same shape one level up.\<close>

fun campaigns_loop :: "json list \<Rightarrow> flat_record list \<Rightarrow> exn + flat_record list" where
  "campaigns_loop [] all_records = Inr all_records"
| "campaigns_loop (campaign' # rest) all_records =
     (case py_get campaign' ''name'' (JStr '''') of
        Inl e \<Rightarrow> campaigns_loop rest all_records
      | Inr campaign_name \<Rightarrow>
         (case py_get campaign' ''ads'' (JList []) of
            Inl e \<Rightarrow> campaigns_loop rest all_records
          | Inr ads \<Rightarrow>
             (case py_iter ads of
                Inl e \<Rightarrow> Inl e
              | Inr ad_list \<Rightarrow>
                 (case ads_loop campaign_name ad_list all_records of
                    Inl e \<Rightarrow> Inl e
                  | Inr all_records' \<Rightarrow> campaigns_loop rest all_records'))))"

text \<open>
  \<^verbatim>\<open>parse_records\<close>: the access to \<^verbatim>\<open>response["data"]["campaigns"]\<close> is guarded and
  gives the empty list when it fails; the iteration over \<^verbatim>\<open>campaigns\<close> is not guarded.
\<close>

definition parse_records :: "json \<Rightarrow> exn + flat_record list" where
  "parse_records response =
     (case py_get response ''data'' (JDict []) of
        Inl e \<Rightarrow> Inr []
      | Inr data \<Rightarrow>
         (case py_get data ''campaigns'' (JList []) of
            Inl e \<Rightarrow> Inr []
          | Inr campaigns \<Rightarrow>
             (case py_iter campaigns of
                Inl e \<Rightarrow> Inl e
              | Inr cs \<Rightarrow> campaigns_loop cs [])))"

section \<open>Fetching: fetch_data\<close>

text \<open>
  The \<^verbatim>\<open>delay\<close> argument is a Python number: an int, unbounded, or a float. A finite
  float is stood for by the rational it denotes; the infinities and the NaN are values
  of their own.
\<close>

datatype pyfloat =
    Finite rat
  | PosInf
  | NegInf
  | NaN

datatype pynum =
    PyInt int
  | PyFloat pyfloat

text \<open>The largest finite float, \<^verbatim>\<open>sys.float_info.max\<close>.\<close>

definition float_max :: rat where
  "float_max = (2 ^ 53 - 1) * 2 ^ 971"

text \<open>
  A float times a power of two that is itself a float: the product of a finite float
  is exact unless it leaves the range of the floats, where it is an infinity.
\<close>

fun float_times_pow2 :: "pyfloat \<Rightarrow> nat \<Rightarrow> pyfloat" where
  "float_times_pow2 (Finite r) n =
     (if float_max < r * 2 ^ n then PosInf
      else if r * 2 ^ n < - float_max then NegInf
      else Finite (r * 2 ^ n))"
| "float_times_pow2 PosInf n = PosInf"
| "float_times_pow2 NegInf n = NegInf"
| "float_times_pow2 NaN n = NaN"

text \<open>
  \<^verbatim>\<open>wait_time = delay * (2 ** attempt)\<close>. The power is an int. With an int delay the
  product is an int and exact; with a float delay the power is first converted to a
  float, which raises an \<^verbatim>\<open>OverflowError\<close> from \<^verbatim>\<open>2 ** 1024\<close> on.
\<close>

fun wait_time :: "pynum \<Rightarrow> nat \<Rightarrow> exn + pynum" where
  "wait_time (PyInt d) attempt = Inr (PyInt (d * 2 ^ attempt))"
| "wait_time (PyFloat x) attempt =
     (if 1024 \<le> attempt then Inl OverflowError
      else Inr (PyFloat (float_times_pow2 x attempt)))"

text \<open>
  What the program does to the outside world is kept as a trace of events, oldest
  first: each \<^verbatim>\<open>requests.get\<close> with its query parameters (the URL, the headers and the
  timeout are the same for every request of one call) and each \<^verbatim>\<open>time.sleep\<close> that
  blocked, with its duration. The remote side is a function from the trace up to and
  including a request to what that request gives: an exception of \<^verbatim>\<open>requests.get\<close>,
  \<^verbatim>\<open>raise_for_status\<close> or \<^verbatim>\<open>response.json\<close>, or the decoded body. So the answer may
  depend on the cursor sent, on how many requests came before and on how long the
  program waited.
\<close>

datatype event =
    Get "(string \<times> json) list"
  | Sleep pynum

datatype outcome =
    RequestError
  | Body json

type_synonym server = "event list \<Rightarrow> outcome"

text \<open>
  \<^verbatim>\<open>time.sleep\<close> belongs to the platform, like the remote side: given the trace so
  far and the duration, it raises an exception, or it blocks for the duration and
  returns (\<open>None\<close>). What it does may depend on more than the duration: an operating
  system refuses a wait that would end after the last instant of its clock.
\<close>

type_synonym sleeper = "event list \<Rightarrow> pynum \<Rightarrow> exn option"

text \<open>
  What CPython 3.11 raises on the duration, on a 64-bit platform, before it asks the
  operating system to wait. The duration is converted to a signed 64-bit count of
  nanoseconds, and a negative count is refused. An int of more than 9223372036 seconds
  either way does not convert. A NaN is refused; an infinity does not convert; a finite
  float is multiplied by \<open>10\<^sup>9\<close> in float arithmetic, and converts when that product,
  rounded to a float, is at least \<open>- 2\<^sup>6\<^sup>3\<close> and less than \<open>2\<^sup>6\<^sup>3\<close>. The floats
  next to these two are \<open>- 2\<^sup>6\<^sup>3 - 2048\<close> and \<open>2\<^sup>6\<^sup>3 - 1024\<close>, which gives the
  two bounds on the exact product.
\<close>

fun duration_error :: "pynum \<Rightarrow> exn option" where
  "duration_error (PyInt n) =
     (if n < - 9223372036 \<or> 9223372036 < n then Some OverflowError
      else if n < 0 then Some (ValueError ''sleep length must be non-negative'')
      else None)"
| "duration_error (PyFloat NaN) = Some (ValueError ''Invalid value NaN (not a number)'')"
| "duration_error (PyFloat PosInf) = Some OverflowError"
| "duration_error (PyFloat NegInf) = Some OverflowError"
| "duration_error (PyFloat (Finite r)) =
     (if r * 10 ^ 9 < - (2 ^ 63 + 1024) \<or> 2 ^ 63 - 512 \<le> r * 10 ^ 9 then Some OverflowError
      else if r < 0 then Some (ValueError ''sleep length must be non-negative'')
      else None)"

text \<open>
  A \<^verbatim>\<open>time.sleep\<close> for the examples: CPython's, on a platform whose operating system
  refuses no wait. (Linux refuses, with an \<^verbatim>\<open>OSError\<close>, a wait that would end more than
  9223372036 seconds after the machine started; the examples wait for seconds.)
\<close>

definition time_sleep :: sleeper where
  "time_sleep tr secs = duration_error secs"

record fetch_args =
  access_token :: string
  start_date :: string
  end_date :: string
  "identifier" :: string
  max_retries :: int
  delay :: pynum
  request_timeout :: int

text \<open>\<^verbatim>\<open>params\<close>, with the cursor added when it is true in Python's sense.\<close>

definition request_params :: "fetch_args \<Rightarrow> json \<Rightarrow> (string \<times> json) list" where
  "request_params args cursor =
     [(''start_date'', JStr (start_date args)),
      (''end_date'', JStr (end_date args)),
      (''identifier'', JStr (identifier args))]
     @ (if truthy cursor then [(''cursor'', cursor)] else [])"

text \<open>
  The two statements that follow a failed attempt, \<^verbatim>\<open>wait_time = delay * (2 ** attempt)\<close>
  and \<^verbatim>\<open>time.sleep(wait_time)\<close>: either raises, or the program blocks and the trace
  records the wait.
\<close>

definition py_sleep :: "sleeper \<Rightarrow> pynum \<Rightarrow> nat \<Rightarrow> event list \<Rightarrow> exn + event list" where
  "py_sleep slp dly attempt tr =
     (case wait_time dly attempt of
        Inl e \<Rightarrow> Inl e
      | Inr secs \<Rightarrow>
          (case slp tr secs of
             Some e \<Rightarrow> Inl e
           | None \<Rightarrow> Inr (tr @ [Sleep secs])))"

text \<open>
  The \<^verbatim>\<open>for attempt in range(max_retries)\<close> loop with its \<^verbatim>\<open>else\<close>, over the attempts
  still to make. It ends in one of three ways: an exception leaves it (\<open>Inl\<close>), the
  attempts run out and the \<^verbatim>\<open>else\<close> branch returns \<^verbatim>\<open>None\<close> (\<open>Inr None\<close>), or a
  body whose status is \<^verbatim>\<open>"SUCCESS"\<close> breaks out of it (\<open>Inr (Some body)\<close>).
  \<^verbatim>\<open>response_json.get("status")\<close> and the second wait stand outside the \<^verbatim>\<open>try\<close>, and
  the first wait stands in the handler, so their exceptions leave the function.
\<close>

fun retry_loop ::
  "server \<Rightarrow> sleeper \<Rightarrow> pynum \<Rightarrow> (string \<times> json) list \<Rightarrow> nat list \<Rightarrow> event list
     \<Rightarrow> event list \<times> (exn + json option)" where
  "retry_loop srv slp dly params [] tr = (tr, Inr None)"
| "retry_loop srv slp dly params (attempt # rest) tr =
     (case srv (tr @ [Get params]) of
        RequestError \<Rightarrow>
          (case py_sleep slp dly attempt (tr @ [Get params]) of
             Inl e \<Rightarrow> (tr @ [Get params], Inl e)
           | Inr tr' \<Rightarrow> retry_loop srv slp dly params rest tr')
      | Body response_json \<Rightarrow>
          (case py_get response_json ''status'' JNull of
             Inl e \<Rightarrow> (tr @ [Get params], Inl e)
           | Inr status \<Rightarrow>
               if status = JStr ''SUCCESS'' then (tr @ [Get params], Inr (Some response_json))
               else
                 (case py_sleep slp dly attempt (tr @ [Get params]) of
                    Inl e \<Rightarrow> (tr @ [Get params], Inl e)
                  | Inr tr' \<Rightarrow> retry_loop srv slp dly params rest tr')))"

text \<open>\<^verbatim>\<open>range(max_retries)\<close>: empty when \<^verbatim>\<open>max_retries\<close> is not positive.\<close>

definition py_range :: "int \<Rightarrow> nat list" where
  "py_range n = [0..<nat n]"

text \<open>
  The \<^verbatim>\<open>while has_next_page\<close> loop, entered with \<^verbatim>\<open>has_next_page\<close> true. Nothing
  bounds the number of pages, so the model takes fuel, one unit per page, and gives
  \<open>None\<close> when it runs out. A result is the trace together with what the call
  did: raised (\<open>Inl\<close>), returned \<^verbatim>\<open>None\<close> (\<open>Inr None\<close>) or returned the records.
\<close>

fun fetch_loop ::
  "nat \<Rightarrow> server \<Rightarrow> sleeper \<Rightarrow> fetch_args \<Rightarrow> json \<Rightarrow> flat_record list \<Rightarrow> event list
     \<Rightarrow> (event list \<times> (exn + flat_record list option)) option" where
  "fetch_loop 0 srv slp args cursor all_records tr = None"
| "fetch_loop (Suc fuel) srv slp args cursor all_records tr =
     (case retry_loop srv slp (delay args) (request_params args cursor)
             (py_range (max_retries args)) tr of
        (tr', Inl e) \<Rightarrow> Some (tr', Inl e)
      | (tr', Inr None) \<Rightarrow> Some (tr', Inr None)
      | (tr', Inr (Some response_json)) \<Rightarrow>
          (case parse_records response_json of
             Inl e \<Rightarrow> Some (tr', Inr None)
           | Inr records \<Rightarrow>
               (case py_get response_json ''hasNextPage'' (JBool False) of
                  Inl e \<Rightarrow> Some (tr', Inl e)
                | Inr has_next_page \<Rightarrow>
                    (case py_get response_json ''nextCursor'' JNull of
                       Inl e \<Rightarrow> Some (tr', Inl e)
                     | Inr cursor' \<Rightarrow>
                         if truthy has_next_page
                         then fetch_loop fuel srv slp args cursor' (all_records @ records) tr'
                         else Some (tr', Inr (Some (all_records @ records)))))))"

definition fetch_data ::
  "nat \<Rightarrow> server \<Rightarrow> sleeper \<Rightarrow> fetch_args
     \<Rightarrow> (event list \<times> (exn + flat_record list option)) option" where
  "fetch_data fuel srv slp args = fetch_loop fuel srv slp args JNull [] []"

section \<open>Loading: load_to_bigquery\<close>

text \<open>
  The data handed to the loader is a DataFrame (its column labels and its rows) or a
  list of JSON rows; only a DataFrame has \<^verbatim>\<open>columns\<close>. The constructors
  \<^verbatim>\<open>SchemaField\<close> and \<^verbatim>\<open>LoadJobConfig\<close> only build values.
\<close>

datatype table_data =
    DataFrame "string list" "json list list"
  | JsonRows "json list"

record load_job_config =
  schema :: "(string \<times> string) list option"
  source_format :: "string option"
  write_disposition :: string
  create_disposition :: string
  schema_update_options :: "string list"

record load_result =
  output_rows :: int

text \<open>A load job: its identifier and what \<^verbatim>\<open>load_job.result()\<close> gives.\<close>

record load_job =
  job_id :: string
  job_result :: "exn + load_result"

text \<open>The warehouse client: each submission raises or gives a job.\<close>

record bq_client =
  load_table_from_dataframe :: "table_data \<Rightarrow> string \<Rightarrow> load_job_config \<Rightarrow> exn + load_job"
  load_table_from_json :: "table_data \<Rightarrow> string \<Rightarrow> load_job_config \<Rightarrow> exn + load_job"

text \<open>
  The loader's events: the three log lines, by what they report, and the calls of the
  client and of the job.
\<close>

datatype bq_event =
    LogLoading string
  | LogSucceeded string int
  | LogFailed string exn
  | CallLoadTableFromDataframe table_data string load_job_config
  | CallLoadTableFromJson table_data string load_job_config
  | CallResult string

definition df_job_config :: "string list \<Rightarrow> load_job_config" where
  "df_job_config cols =
     \<lparr>schema = Some (map (\<lambda>col. (col, ''STRING'')) cols),
      source_format = None,
      write_disposition = ''WRITE_APPEND'',
      create_disposition = ''CREATE_IF_NEEDED'',
      schema_update_options = [''ALLOW_FIELD_ADDITION'', ''ALLOW_FIELD_RELAXATION'']\<rparr>"

definition json_job_config :: load_job_config where
  "json_job_config =
     \<lparr>schema = None,
      source_format = Some ''NEWLINE_DELIMITED_JSON'',
      write_disposition = ''WRITE_APPEND'',
      create_disposition = ''CREATE_IF_NEEDED'',
      schema_update_options = [''ALLOW_FIELD_ADDITION'', ''ALLOW_FIELD_RELAXATION'']\<rparr>"

definition table_id_of :: "string \<Rightarrow> string \<Rightarrow> string \<Rightarrow> string" where
  "table_id_of dataset_id table_name formatted_date =
     dataset_id @ ''.'' @ table_name @ ''_'' @ formatted_date"

text \<open>
  The part of the \<^verbatim>\<open>try\<close> block that chooses the submission: it gives the events so
  far and the job, or the exception that left the block.
\<close>

definition submit_load ::
  "bq_client \<Rightarrow> table_data \<Rightarrow> string \<Rightarrow> string \<Rightarrow> bq_event list \<times> (exn + load_job)" where
  "submit_load client data table_id data_format =
     (if data_format = ''df'' then
        (case data of
           DataFrame cols rows \<Rightarrow>
             ([CallLoadTableFromDataframe data table_id (df_job_config cols)],
              load_table_from_dataframe client data table_id (df_job_config cols))
         | JsonRows rows \<Rightarrow> ([], Inl AttributeError))
      else if data_format = ''json'' then
        ([CallLoadTableFromJson data table_id json_job_config],
         load_table_from_json client data table_id json_job_config)
      else ([], Inl (ValueError (''Unsupported data_format: '' @ data_format))))"

text \<open>
  \<^verbatim>\<open>load_to_bigquery\<close>: the handler logs the failure with the table identifier and
  raises the exception again.
\<close>

definition load_to_bigquery ::
  "bq_client \<Rightarrow> table_data \<Rightarrow> string \<Rightarrow> string \<Rightarrow> string \<Rightarrow> string
     \<Rightarrow> bq_event list \<times> (exn + load_result)" where
  "load_to_bigquery client data dataset_id table_name formatted_date data_format =
     (let table_id = table_id_of dataset_id table_name formatted_date;
          log0 = [LogLoading table_id]
      in case submit_load client data table_id data_format of
           (evs, Inl e) \<Rightarrow> (log0 @ evs @ [LogFailed table_id e], Inl e)
         | (evs, Inr job) \<Rightarrow>
             (case job_result job of
                Inl e \<Rightarrow>
                  (log0 @ evs @ [CallResult (job_id job), LogFailed table_id e], Inl e)
              | Inr result \<Rightarrow>
                  (log0 @ evs @ [CallResult (job_id job),
                                 LogSucceeded (job_id job) (output_rows result)],
                   Inr result)))"

section \<open>Notions used to state the properties\<close>

text \<open>
  Only a dict answers \<^verbatim>\<open>get\<close>; every other value is what the flattening calls a
  malformed element.
\<close>

fun is_dict :: "json \<Rightarrow> bool" where
  "is_dict (JDict kvs) = True"
| "is_dict _ = False"

text \<open>
  A payload whose collections can all be iterated: the \<^verbatim>\<open>campaigns\<close> value, the
  \<^verbatim>\<open>ads\<close> value of every campaign that is a dict and the \<^verbatim>\<open>metrics\<close> value of every
  ad that is a dict are a list, a string or a dict.
\<close>

definition iterable :: "json \<Rightarrow> bool" where
  "iterable x = (case py_iter x of Inl e \<Rightarrow> False | Inr ys \<Rightarrow> True)"

definition ad_iterable :: "json \<Rightarrow> bool" where
  "ad_iterable ad =
     (case py_get ad ''metrics'' (JList []) of Inl e \<Rightarrow> True | Inr metrics \<Rightarrow> iterable metrics)"

definition campaign_iterable :: "json \<Rightarrow> bool" where
  "campaign_iterable c =
     (case py_get c ''ads'' (JList []) of
        Inl e \<Rightarrow> True
      | Inr ads \<Rightarrow> (case py_iter ads of Inl e \<Rightarrow> False | Inr ad_list \<Rightarrow> list_all ad_iterable ad_list))"

definition page_iterable :: "json \<Rightarrow> bool" where
  "page_iterable response =
     (case py_get response ''data'' (JDict []) of
        Inl e \<Rightarrow> True
      | Inr data \<Rightarrow>
         (case py_get data ''campaigns'' (JList []) of
            Inl e \<Rightarrow> True
          | Inr campaigns \<Rightarrow>
             (case py_iter campaigns of Inl e \<Rightarrow> False | Inr cs \<Rightarrow> list_all campaign_iterable cs)))"

text \<open>
  The flattening as the specification words it (section 4.3, with the record of
  section 3): campaigns, then ads, then metrics, in order; an element that is not a
  dict is left out; a missing name or date is the empty string and a missing number is
  zero. \<open>get_or\<close> reads a key of a dict with a default, and \<open>members\<close> are the
  elements of a collection.
\<close>

definition get_or :: "(string \<times> json) list \<Rightarrow> string \<Rightarrow> json \<Rightarrow> json" where
  "get_or kvs k d = (case map_of kvs k of None \<Rightarrow> d | Some v \<Rightarrow> v)"

definition members :: "json \<Rightarrow> json list" where
  "members x = (case py_iter x of Inl e \<Rightarrow> [] | Inr ys \<Rightarrow> ys)"

fun spec_metric :: "json \<Rightarrow> json \<Rightarrow> json \<Rightarrow> flat_record list" where
  "spec_metric campaign_name ad_name' (JDict m) =
     [\<lparr>campaign = campaign_name, ad_name = ad_name',
       date = get_or m ''date'' (JStr ''''),
       cost = get_or m ''cost'' (JInt 0),
       impressions = get_or m ''impressions'' (JInt 0),
       clicks = get_or m ''clicks'' (JInt 0),
       conversions = get_or m ''conversions'' (JInt 0),
       revenue = get_or m ''revenue'' (JInt 0)\<rparr>]"
| "spec_metric campaign_name ad_name' _ = []"

fun spec_ad :: "json \<Rightarrow> json \<Rightarrow> flat_record list" where
  "spec_ad campaign_name (JDict a) =
     concat (map (spec_metric campaign_name (get_or a ''name'' (JStr '''')))
               (members (get_or a ''metrics'' (JList []))))"
| "spec_ad campaign_name _ = []"

fun spec_campaign :: "json \<Rightarrow> flat_record list" where
  "spec_campaign (JDict c) =
     concat (map (spec_ad (get_or c ''name'' (JStr '''')))
               (members (get_or c ''ads'' (JList []))))"
| "spec_campaign _ = []"

definition flatten_spec :: "json \<Rightarrow> flat_record list" where
  "flatten_spec response =
     (case py_get response ''data'' (JDict []) of
        Inl e \<Rightarrow> []
      | Inr data \<Rightarrow>
         (case py_get data ''campaigns'' (JList []) of
            Inl e \<Rightarrow> []
          | Inr campaigns \<Rightarrow> concat (map spec_campaign (members campaigns))))"

text \<open>
  The value of \<^verbatim>\<open>delay * (2 ** attempt)\<close> when the product does not raise, and
  whether the wait of an attempt goes through at a point of the trace: the product does
  not raise and \<^verbatim>\<open>time.sleep\<close> accepts it there.
\<close>

fun scaled :: "pynum \<Rightarrow> nat \<Rightarrow> pynum" where
  "scaled (PyInt d) attempt = PyInt (d * 2 ^ attempt)"
| "scaled (PyFloat x) attempt = PyFloat (float_times_pow2 x attempt)"

definition accepted :: "sleeper \<Rightarrow> event list \<Rightarrow> pynum \<Rightarrow> nat \<Rightarrow> bool" where
  "accepted slp tr dly attempt =
     (case wait_time dly attempt of Inl e \<Rightarrow> False | Inr secs \<Rightarrow> slp tr secs = None)"

text \<open>
  The events of a run of failed attempts: each request followed by its wait, for the
  attempt numbers given.
\<close>

definition backoff :: "(string \<times> json) list \<Rightarrow> pynum \<Rightarrow> nat list \<Rightarrow> event list" where
  "backoff params dly attempts = concat (map (\<lambda>i. [Get params, Sleep (scaled dly i)]) attempts)"

text \<open>
  An attempt fails when the request raises or the body is a dict whose status is not
  \<^verbatim>\<open>"SUCCESS"\<close>; it is ready when the status is \<^verbatim>\<open>"SUCCESS"\<close>. (A body that is not
  a dict is neither: the program raises on it.)
\<close>

fun attempt_fails :: "outcome \<Rightarrow> bool" where
  "attempt_fails RequestError = True"
| "attempt_fails (Body response_json) =
     (case py_get response_json ''status'' JNull of
        Inl e \<Rightarrow> False
      | Inr status \<Rightarrow> status \<noteq> JStr ''SUCCESS'')"

fun is_ready :: "outcome \<Rightarrow> bool" where
  "is_ready RequestError = False"
| "is_ready (Body response_json) = (py_get response_json ''status'' JNull = Inr (JStr ''SUCCESS''))"

text \<open>The waits and the requests of a trace, in order.\<close>

fun sleeps :: "event list \<Rightarrow> pynum list" where
  "sleeps [] = []"
| "sleeps (Sleep w # es) = w # sleeps es"
| "sleeps (Get p # es) = sleeps es"

fun gets :: "event list \<Rightarrow> (string \<times> json) list list" where
  "gets [] = []"
| "gets (Get p # es) = p # gets es"
| "gets (Sleep w # es) = gets es"

text \<open>
  What the remote side answered to each request of a trace, in order; the second
  argument is the trace before the part looked at.
\<close>

fun replies :: "server \<Rightarrow> event list \<Rightarrow> event list \<Rightarrow> outcome list" where
  "replies srv pre [] = []"
| "replies srv pre (Get p # es) = srv (pre @ [Get p]) # replies srv (pre @ [Get p]) es"
| "replies srv pre (Sleep w # es) = replies srv (pre @ [Sleep w]) es"

text \<open>Whether a page asks for another one, as \<^verbatim>\<open>while has_next_page\<close> reads it.\<close>

definition has_next :: "json \<Rightarrow> bool" where
  "has_next response_json =
     (case py_get response_json ''hasNextPage'' (JBool False) of
        Inl e \<Rightarrow> False
      | Inr has_next_page \<Rightarrow> truthy has_next_page)"

text \<open>The loader's calls of the warehouse client and of the job.\<close>

fun is_submission :: "bq_event \<Rightarrow> bool" where
  "is_submission (CallLoadTableFromDataframe d t c) = True"
| "is_submission (CallLoadTableFromJson d t c) = True"
| "is_submission _ = False"

fun is_result_call :: "bq_event \<Rightarrow> bool" where
  "is_result_call (CallResult j) = True"
| "is_result_call _ = False"


section \<open>Concrete pages, remote sides and clients\<close>

text \<open>
  The page and the record of the specification's worked example, and a page of two
  campaigns with malformed elements at each level and metrics that lack fields, with the
  records it should give.
\<close>

definition example_page :: json where
  "example_page =
     JDict [(''status'', JStr ''SUCCESS''),
            (''data'', JDict [(''campaigns'', JList [
               JDict [(''name'', JStr ''C1''),
                      (''ads'', JList [
                         JDict [(''name'', JStr ''A1''),
                                (''metrics'', JList [
                                   JDict [(''date'', JStr ''2025-06-01''),
                                          (''cost'', JInt 10),
                                          (''impressions'', JInt 100),
                                          (''clicks'', JInt 5),
                                          (''conversions'', JInt 1),
                                          (''revenue'', JInt 20)]])]])]])]),
            (''hasNextPage'', JBool False)]"

definition example_record :: flat_record where
  "example_record =
     \<lparr>campaign = JStr ''C1'', ad_name = JStr ''A1'', date = JStr ''2025-06-01'',
      cost = JInt 10, impressions = JInt 100, clicks = JInt 5, conversions = JInt 1,
      revenue = JInt 20\<rparr>"

definition mixed_page :: json where
  "mixed_page =
     JDict [(''data'', JDict [(''campaigns'', JList [
        JDict [(''name'', JStr ''C1''),
               (''ads'', JList [
                  JDict [(''name'', JStr ''A1''),
                         (''metrics'', JList [
                            JDict [(''date'', JStr ''2025-06-01''), (''cost'', JInt 10),
                                   (''impressions'', JInt 100), (''clicks'', JInt 5),
                                   (''conversions'', JInt 1), (''revenue'', JInt 20)],
                            JInt 7,
                            JDict [(''clicks'', JInt 3)],
                            JDict []])],
                  JStr ''not an ad'',
                  JDict [(''metrics'', JList [JDict [(''date'', JStr ''2025-06-02'')]])]])],
        JNull,
        JDict [(''ads'', JList [JDict [(''name'', JStr ''A3''),
                                       (''metrics'', JList [JDict [(''cost'', JInt 4)]])]])]])])]"

definition mixed_records :: "flat_record list" where
  "mixed_records =
     [\<lparr>campaign = JStr ''C1'', ad_name = JStr ''A1'', date = JStr ''2025-06-01'',
       cost = JInt 10, impressions = JInt 100, clicks = JInt 5, conversions = JInt 1,
       revenue = JInt 20\<rparr>,
      \<lparr>campaign = JStr ''C1'', ad_name = JStr ''A1'', date = JStr '''',
       cost = JInt 0, impressions = JInt 0, clicks = JInt 3, conversions = JInt 0,
       revenue = JInt 0\<rparr>,
      \<lparr>campaign = JStr ''C1'', ad_name = JStr ''A1'', date = JStr '''',
       cost = JInt 0, impressions = JInt 0, clicks = JInt 0, conversions = JInt 0,
       revenue = JInt 0\<rparr>,
      \<lparr>campaign = JStr ''C1'', ad_name = JStr '''', date = JStr ''2025-06-02'',
       cost = JInt 0, impressions = JInt 0, clicks = JInt 0, conversions = JInt 0,
       revenue = JInt 0\<rparr>,
      \<lparr>campaign = JStr '''', ad_name = JStr ''A3'', date = JStr '''',
       cost = JInt 4, impressions = JInt 0, clicks = JInt 0, conversions = JInt 0,
       revenue = JInt 0\<rparr>]"

text \<open>
  The arguments of the unit test, with the defaults of \<^verbatim>\<open>fetch_data\<close>, and the
  query parameters they give when no cursor is set.
\<close>

definition demo_args :: fetch_args where
  "demo_args =
     \<lparr>access_token = ''dummy-token'', start_date = ''2025-06-01'', end_date = ''2025-06-30'',
      identifier = ''test'', max_retries = 3, delay = PyInt 5, request_timeout = 30\<rparr>"

definition base_params :: "(string \<times> json) list" where
  "base_params =
     [(''start_date'', JStr ''2025-06-01''), (''end_date'', JStr ''2025-06-30''),
      (''identifier'', JStr ''test'')]"

text \<open>
  A first page that names a next cursor, the same page without \<^verbatim>\<open>nextCursor\<close>, a
  page that is still processing, and a page whose \<^verbatim>\<open>campaigns\<close> is \<^verbatim>\<open>null\<close>.
\<close>

definition first_page :: json where
  "first_page =
     JDict [(''status'', JStr ''SUCCESS''),
            (''data'', JDict [(''campaigns'', JList [
               JDict [(''name'', JStr ''C0''),
                      (''ads'', JList [
                         JDict [(''name'', JStr ''A0''),
                                (''metrics'', JList [JDict [(''date'', JStr ''2025-05-31'')]])]])]])]),
            (''hasNextPage'', JBool True),
            (''nextCursor'', JStr ''c2'')]"

definition first_record :: flat_record where
  "first_record =
     \<lparr>campaign = JStr ''C0'', ad_name = JStr ''A0'', date = JStr ''2025-05-31'',
      cost = JInt 0, impressions = JInt 0, clicks = JInt 0, conversions = JInt 0,
      revenue = JInt 0\<rparr>"

definition cursorless_page :: json where
  "cursorless_page =
     JDict [(''status'', JStr ''SUCCESS''),
            (''data'', JDict [(''campaigns'', JList [
               JDict [(''name'', JStr ''C0''),
                      (''ads'', JList [
                         JDict [(''name'', JStr ''A0''),
                                (''metrics'', JList [JDict [(''date'', JStr ''2025-05-31'')]])]])]])]),
            (''hasNextPage'', JBool True)]"

definition pending_page :: json where
  "pending_page = JDict [(''status'', JStr ''PENDING'')]"

definition unparsable_page :: json where
  "unparsable_page =
     JDict [(''status'', JStr ''SUCCESS''),
            (''data'', JDict [(''campaigns'', JNull)]),
            (''hasNextPage'', JBool False)]"

text \<open>
  Remote sides. They look at the cursor of the request just made, or at how many events
  there were so far.
\<close>

definition sent_cursor :: "event list \<Rightarrow> json option" where
  "sent_cursor tr = (case last tr of Get params \<Rightarrow> map_of params ''cursor'' | Sleep w \<Rightarrow> None)"

definition two_page_server :: server where
  "two_page_server tr =
     (if sent_cursor tr = Some (JStr ''c2'') then Body example_page else Body first_page)"

definition stalling_server :: server where
  "stalling_server tr =
     (if sent_cursor tr = Some (JStr ''c2'') then Body pending_page
      else if length tr = 1 then RequestError
      else Body first_page)"

definition cursorless_server :: server where
  "cursorless_server tr = (if length tr = 1 then Body cursorless_page else Body example_page)"

definition slow_server :: server where
  "slow_server tr =
     (if length tr = 1 then RequestError
      else if length tr = 3 then Body pending_page
      else Body example_page)"

text \<open>
  A client whose jobs report two rows written, and one whose DataFrame submission is
  refused and whose JSON job fails when its result is awaited.
\<close>

definition stub_client :: bq_client where
  "stub_client =
     \<lparr>load_table_from_dataframe =
        (\<lambda>d t c. Inr \<lparr>job_id = ''job-0'', job_result = Inr \<lparr>output_rows = 2\<rparr>\<rparr>),
      load_table_from_json =
        (\<lambda>d t c. Inr \<lparr>job_id = ''job-0'', job_result = Inr \<lparr>output_rows = 2\<rparr>\<rparr>)\<rparr>"

definition failing_client :: bq_client where
  "failing_client =
     \<lparr>load_table_from_dataframe = (\<lambda>d t c. Inl (ExternalError ''Forbidden'')),
      load_table_from_json =
        (\<lambda>d t c. Inr \<lparr>job_id = ''job-1'', job_result = Inl (ExternalError ''Quota exceeded'')\<rparr>)\<rparr>"

section \<open>Flattening\<close>

subsection \<open>The loops compute the flattening of the specification\<close>

lemma py_get_not_dict: "\<not> is_dict x \<Longrightarrow> py_get x k d = Inl AttributeError"
  by (cases x) simp_all

lemma parse_metric_dict:
  "parse_metric cn an (JDict m) =
     Inr \<lparr>campaign = cn, ad_name = an,
          date = get_or m ''date'' (JStr ''''),
          cost = get_or m ''cost'' (JInt 0),
          impressions = get_or m ''impressions'' (JInt 0),
          clicks = get_or m ''clicks'' (JInt 0),
          conversions = get_or m ''conversions'' (JInt 0),
          revenue = get_or m ''revenue'' (JInt 0)\<rparr>"
  by (simp add: parse_metric_def get_or_def)

lemma parse_metric_not_dict: "\<not> is_dict x \<Longrightarrow> parse_metric cn an x = Inl AttributeError"
  by (simp add: parse_metric_def py_get_not_dict)

lemma spec_metric_not_dict: "\<not> is_dict x \<Longrightarrow> spec_metric cn an x = []"
  by (cases x) simp_all

lemma spec_ad_not_dict: "\<not> is_dict x \<Longrightarrow> spec_ad cn x = []"
  by (cases x) simp_all

lemma spec_campaign_not_dict: "\<not> is_dict x \<Longrightarrow> spec_campaign x = []"
  by (cases x) simp_all

lemma metrics_loop_step:
  "metrics_loop cn an (x # xs) acc = metrics_loop cn an xs (acc @ spec_metric cn an x)"
proof (cases "is_dict x")
  case True
  then obtain m where "x = JDict m" by (cases x) simp_all
  then show ?thesis by (simp add: parse_metric_dict)
next
  case False
  then show ?thesis by (simp add: parse_metric_not_dict spec_metric_not_dict)
qed

lemma metrics_loop_spec:
  "metrics_loop cn an ms acc = acc @ concat (map (spec_metric cn an) ms)"
proof (induction ms arbitrary: acc)
  case Nil
  then show ?case by simp
next
  case (Cons x xs)
  show ?case by (simp only: metrics_loop_step Cons.IH) simp
qed

lemma ads_loop_spec:
  "ads_loop cn ads acc = Inr rs \<Longrightarrow> rs = acc @ concat (map (spec_ad cn) ads)"
proof (induction ads arbitrary: acc)
  case Nil
  then show ?case by simp
next
  case (Cons x xs)
  show ?case
  proof (cases "is_dict x")
    case False
    with Cons.prems have "ads_loop cn xs acc = Inr rs" by (simp add: py_get_not_dict)
    from Cons.IH [OF this] show ?thesis using False by (simp add: spec_ad_not_dict)
  next
    case True
    then obtain a where x: "x = JDict a" by (cases x) simp_all
    from Cons.prems x obtain ms where
      it: "py_iter (get_or a ''metrics'' (JList [])) = Inr ms"
      and run: "ads_loop cn xs (metrics_loop cn (get_or a ''name'' (JStr '''')) ms acc) = Inr rs"
      by (auto simp: get_or_def split: sum.splits)
    from Cons.IH [OF run] show ?thesis
      using x it by (simp add: metrics_loop_spec members_def)
  qed
qed

lemma ads_loop_total:
  "list_all ad_iterable ads \<Longrightarrow> \<exists>rs. ads_loop cn ads acc = Inr rs"
  by (induction ads arbitrary: acc)
     (auto simp: ad_iterable_def iterable_def split: sum.splits)

lemma campaigns_loop_spec:
  "campaigns_loop cs acc = Inr rs \<Longrightarrow> rs = acc @ concat (map spec_campaign cs)"
proof (induction cs arbitrary: acc)
  case Nil
  then show ?case by simp
next
  case (Cons x xs)
  show ?case
  proof (cases "is_dict x")
    case False
    with Cons.prems have "campaigns_loop xs acc = Inr rs" by (simp add: py_get_not_dict)
    from Cons.IH [OF this] show ?thesis using False by (simp add: spec_campaign_not_dict)
  next
    case True
    then obtain c where x: "x = JDict c" by (cases x) simp_all
    from Cons.prems x obtain ad_list acc' where
      it: "py_iter (get_or c ''ads'' (JList [])) = Inr ad_list"
      and ads: "ads_loop (get_or c ''name'' (JStr '''')) ad_list acc = Inr acc'"
      and run: "campaigns_loop xs acc' = Inr rs"
      by (auto simp: get_or_def split: sum.splits)
    from ads_loop_spec [OF ads] Cons.IH [OF run] show ?thesis
      using x it by (simp add: members_def)
  qed
qed

lemma campaigns_loop_total:
  "list_all campaign_iterable cs \<Longrightarrow> \<exists>rs. campaigns_loop cs acc = Inr rs"
proof (induction cs arbitrary: acc)
  case Nil
  then show ?case by simp
next
  case (Cons c cs)
  then have tl: "\<And>acc'. \<exists>rs. campaigns_loop cs acc' = Inr rs" by simp
  show ?case
  proof (cases "py_get c ''name'' (JStr '''')")
    case (Inl e)
    then show ?thesis using tl by simp
  next
    case name: (Inr cn)
    show ?thesis
    proof (cases "py_get c ''ads'' (JList [])")
      case (Inl e)
      then show ?thesis using name tl by simp
    next
      case ads: (Inr ads)
      from Cons.prems ads obtain ad_list where
        it: "py_iter ads = Inr ad_list" and ok: "list_all ad_iterable ad_list"
        by (auto simp: campaign_iterable_def split: sum.splits)
      from ads_loop_total [OF ok] obtain rs where "ads_loop cn ad_list acc = Inr rs"
        by blast
      then show ?thesis using name ads it tl by simp
    qed
  qed
qed

lemma parse_records_spec: "parse_records p = Inr rs \<Longrightarrow> rs = flatten_spec p"
proof (cases "py_get p ''data'' (JDict [])")
  case (Inl e)
  then show "parse_records p = Inr rs \<Longrightarrow> rs = flatten_spec p"
    by (simp add: parse_records_def flatten_spec_def)
next
  case data: (Inr d)
  assume run: "parse_records p = Inr rs"
  show "rs = flatten_spec p"
  proof (cases "py_get d ''campaigns'' (JList [])")
    case (Inl e)
    with data run show ?thesis by (simp add: parse_records_def flatten_spec_def)
  next
    case (Inr campaigns)
    with data run obtain cs where it: "py_iter campaigns = Inr cs"
      and loop: "campaigns_loop cs [] = Inr rs"
      by (auto simp: parse_records_def split: sum.splits)
    from campaigns_loop_spec [OF loop] show ?thesis
      using data Inr it by (simp add: flatten_spec_def members_def)
  qed
qed

lemma parse_records_total:
  "page_iterable p \<Longrightarrow> \<exists>rs. parse_records p = Inr rs"
  using campaigns_loop_total
  by (auto simp: parse_records_def page_iterable_def split: sum.splits)

lemma spec_metric_fields:
  "r \<in> set (spec_metric cn an x) \<Longrightarrow>
   \<exists>m. x = JDict m \<and> campaign r = cn \<and> ad_name r = an
      \<and> date r = get_or m ''date'' (JStr '''')
      \<and> cost r = get_or m ''cost'' (JInt 0)
      \<and> impressions r = get_or m ''impressions'' (JInt 0)
      \<and> clicks r = get_or m ''clicks'' (JInt 0)
      \<and> conversions r = get_or m ''conversions'' (JInt 0)
      \<and> revenue r = get_or m ''revenue'' (JInt 0)"
  by (cases x) auto

lemma spec_ad_fields:
  "r \<in> set (spec_ad cn x) \<Longrightarrow>
   \<exists>a y. x = JDict a \<and> y \<in> set (members (get_or a ''metrics'' (JList [])))
      \<and> r \<in> set (spec_metric cn (get_or a ''name'' (JStr '''')) y)"
  by (cases x) auto

lemma spec_campaign_fields:
  "r \<in> set (spec_campaign x) \<Longrightarrow>
   \<exists>c y. x = JDict c \<and> y \<in> set (members (get_or c ''ads'' (JList [])))
      \<and> r \<in> set (spec_ad (get_or c ''name'' (JStr '''')) y)"
  by (cases x) auto

lemma flatten_spec_fields:
  assumes "r \<in> set (flatten_spec p)"
  shows "\<exists>c a m. campaign r = get_or c ''name'' (JStr '''')
      \<and> ad_name r = get_or a ''name'' (JStr '''')
      \<and> date r = get_or m ''date'' (JStr '''')
      \<and> cost r = get_or m ''cost'' (JInt 0)
      \<and> impressions r = get_or m ''impressions'' (JInt 0)
      \<and> clicks r = get_or m ''clicks'' (JInt 0)
      \<and> conversions r = get_or m ''conversions'' (JInt 0)
      \<and> revenue r = get_or m ''revenue'' (JInt 0)"
proof -
  from assms obtain x where "r \<in> set (spec_campaign x)"
    by (auto simp: flatten_spec_def split: sum.splits)
  from spec_campaign_fields [OF this] obtain c y where
    "r \<in> set (spec_ad (get_or c ''name'' (JStr '''')) y)" by blast
  from spec_ad_fields [OF this] obtain a z where
    "r \<in> set (spec_metric (get_or c ''name'' (JStr '''')) (get_or a ''name'' (JStr '''')) z)"
    by blast
  from spec_metric_fields [OF this] show ?thesis by blast
qed

subsection \<open>Defaults of the scalar fields\<close>

text \<open>
  C8: for every payload, whenever \<^verbatim>\<open>parse_records\<close> returns, what it returns is
  exactly the flattening of the specification: one record for every metric that is a
  dict, of every ad that is a dict, of every campaign that is a dict, in order, in which
  each of \<^verbatim>\<open>date\<close>, \<^verbatim>\<open>cost\<close>, \<^verbatim>\<open>impressions\<close>, \<^verbatim>\<open>clicks\<close>, \<^verbatim>\<open>conversions\<close> and
  \<^verbatim>\<open>revenue\<close> is the metric's value for that key, or the empty string (for \<^verbatim>\<open>date\<close>)
  or zero (for the numbers) when the key is missing, and the campaign's and the ad's
  \<^verbatim>\<open>name\<close> default to the empty string. It does return whenever every collection it reaches
  can be iterated, so a missing field never makes it fail. Every record it returns has
  its eight fields read in this way from some campaign, ad and metric. And the page of
  the worked example flattens to the record of the worked example.
\<close>

theorem parse_records_defaults:
  "(parse_records p = Inr rs \<longrightarrow> rs = flatten_spec p)
   \<and> (page_iterable p \<longrightarrow> parse_records p = Inr (flatten_spec p))
   \<and> (parse_records p = Inr rs \<longrightarrow>
        (\<forall>r \<in> set rs. \<exists>c a m.
            campaign r = (case map_of c ''name'' of None \<Rightarrow> JStr '''' | Some v \<Rightarrow> v)
          \<and> ad_name r = (case map_of a ''name'' of None \<Rightarrow> JStr '''' | Some v \<Rightarrow> v)
          \<and> date r = (case map_of m ''date'' of None \<Rightarrow> JStr '''' | Some v \<Rightarrow> v)
          \<and> cost r = (case map_of m ''cost'' of None \<Rightarrow> JInt 0 | Some v \<Rightarrow> v)
          \<and> impressions r = (case map_of m ''impressions'' of None \<Rightarrow> JInt 0 | Some v \<Rightarrow> v)
          \<and> clicks r = (case map_of m ''clicks'' of None \<Rightarrow> JInt 0 | Some v \<Rightarrow> v)
          \<and> conversions r = (case map_of m ''conversions'' of None \<Rightarrow> JInt 0 | Some v \<Rightarrow> v)
          \<and> revenue r = (case map_of m ''revenue'' of None \<Rightarrow> JInt 0 | Some v \<Rightarrow> v)))
   \<and> parse_records example_page = Inr [example_record]"
proof (intro conjI impI ballI)
  assume "parse_records p = Inr rs"
  then show "rs = flatten_spec p" by (rule parse_records_spec)
next
  assume "page_iterable p"
  from parse_records_total [OF this] obtain rs' where r: "parse_records p = Inr rs'" by blast
  from parse_records_spec [OF r] r show "parse_records p = Inr (flatten_spec p)" by simp
next
  fix r assume "parse_records p = Inr rs" and "r \<in> set rs"
  then have "r \<in> set (flatten_spec p)" using parse_records_spec by blast
  from flatten_spec_fields [OF this]
  show "\<exists>c a m.
            campaign r = (case map_of c ''name'' of None \<Rightarrow> JStr '''' | Some v \<Rightarrow> v)
          \<and> ad_name r = (case map_of a ''name'' of None \<Rightarrow> JStr '''' | Some v \<Rightarrow> v)
          \<and> date r = (case map_of m ''date'' of None \<Rightarrow> JStr '''' | Some v \<Rightarrow> v)
          \<and> cost r = (case map_of m ''cost'' of None \<Rightarrow> JInt 0 | Some v \<Rightarrow> v)
          \<and> impressions r = (case map_of m ''impressions'' of None \<Rightarrow> JInt 0 | Some v \<Rightarrow> v)
          \<and> clicks r = (case map_of m ''clicks'' of None \<Rightarrow> JInt 0 | Some v \<Rightarrow> v)
          \<and> conversions r = (case map_of m ''conversions'' of None \<Rightarrow> JInt 0 | Some v \<Rightarrow> v)
          \<and> revenue r = (case map_of m ''revenue'' of None \<Rightarrow> JInt 0 | Some v \<Rightarrow> v)"
    by (simp add: get_or_def)
next
  show "parse_records example_page = Inr [example_record]"
    by (simp add: example_page_def example_record_def parse_records_def parse_metric_def)
qed

text \<open>
  A page of two campaigns, with a malformed element at each level and metrics that lack
  some or all of their fields: five records, each with its own defaults.
\<close>

theorem parse_records_defaults_witness:
  "page_iterable mixed_page
   \<and> parse_records mixed_page = Inr mixed_records
   \<and> mixed_records = flatten_spec mixed_page"
proof -
  have i: "page_iterable mixed_page"
    by (simp add: mixed_page_def page_iterable_def campaign_iterable_def ad_iterable_def
          iterable_def)
  have r: "parse_records mixed_page = Inr mixed_records"
    by (simp add: mixed_page_def mixed_records_def parse_records_def parse_metric_def)
  from parse_records_defaults [of mixed_page mixed_records] r
  have s: "mixed_records = flatten_spec mixed_page" by blast
  show ?thesis by (intro conjI i r s)
qed

subsection \<open>A collection that is not iterable\<close>

text \<open>
  C5 says that \<^verbatim>\<open>parse_records\<close> never raises, that a malformed element is skipped at
  its own level and that an inaccessible campaign list gives the empty list. The
  program guards every \<^verbatim>\<open>get\<close> with a \<^verbatim>\<open>try\<close> for that purpose, but its three \<^verbatim>\<open>for\<close>
  statements stand outside the \<^verbatim>\<open>try\<close> blocks. So a \<^verbatim>\<open>campaigns\<close>, \<^verbatim>\<open>ads\<close> or
  \<^verbatim>\<open>metrics\<close> value that is \<^verbatim>\<open>null\<close> raises a \<^verbatim>\<open>TypeError\<close> out of the function, and
  takes the records of well-formed siblings with it, whereas a \<^verbatim>\<open>data\<close> that is
  \<^verbatim>\<open>null\<close> gives the empty list and an ad that is \<^verbatim>\<open>null\<close> is skipped. The program
  evaluated at these payloads:
\<close>

theorem parse_records_raises_on_null_collection:
  "parse_records (JDict [(''data'', JDict [(''campaigns'', JNull)])]) = Inl TypeError
   \<and> parse_records (JDict [(''data'', JDict [(''campaigns'', JList [
        JDict [(''name'', JStr ''C1''), (''ads'', JNull)]])])]) = Inl TypeError
   \<and> parse_records (JDict [(''data'', JDict [(''campaigns'', JList [
        JDict [(''name'', JStr ''C1''), (''ads'', JList [
          JDict [(''name'', JStr ''A1''), (''metrics'', JNull)]])]])])]) = Inl TypeError
   \<and> parse_records (JDict [(''data'', JDict [(''campaigns'', JList [
        JDict [(''name'', JStr ''C1''), (''ads'', JList [
          JDict [(''name'', JStr ''A1''),
                 (''metrics'', JList [JDict [(''date'', JStr ''2025-06-01'')]])],
          JDict [(''name'', JStr ''A2''), (''metrics'', JNull)]])]])])]) = Inl TypeError
   \<and> parse_records (JDict [(''data'', JNull)]) = Inr []
   \<and> parse_records (JDict [(''data'', JDict [(''campaigns'', JList [
        JDict [(''name'', JStr ''C1''), (''ads'', JList [
          JDict [(''name'', JStr ''A1''),
                 (''metrics'', JList [JDict [(''date'', JStr ''2025-06-01'')]])],
          JNull])]])])]) =
       Inr [\<lparr>campaign = JStr ''C1'', ad_name = JStr ''A1'', date = JStr ''2025-06-01'',
             cost = JInt 0, impressions = JInt 0, clicks = JInt 0, conversions = JInt 0,
             revenue = JInt 0\<rparr>]"
  by (simp add: parse_records_def parse_metric_def)

section \<open>Fetching\<close>

subsection \<open>Waits\<close>

lemma backoff_Nil [simp]: "backoff p d [] = []"
  by (simp add: backoff_def)

lemma backoff_Cons [simp]:
  "backoff p d (i # is) = Get p # Sleep (scaled d i) # backoff p d is"
  by (simp add: backoff_def)

lemma backoff_append: "backoff p d (xs @ ys) = backoff p d xs @ backoff p d ys"
  by (simp add: backoff_def)

lemma sleeps_backoff: "sleeps (backoff p d is) = map (scaled d) is"
  by (induction "is") simp_all

lemma gets_backoff: "gets (backoff p d is) = map (\<lambda>i. p) is"
  by (induction "is") simp_all

lemma sleeps_append: "sleeps (xs @ ys) = sleeps xs @ sleeps ys"
  by (induction xs rule: sleeps.induct) simp_all

lemma gets_append: "gets (xs @ ys) = gets xs @ gets ys"
  by (induction xs rule: gets.induct) simp_all

lemma wait_time_scaled: "wait_time d i = Inr w \<Longrightarrow> w = scaled d i"
  by (cases d) (auto split: if_splits)

lemma py_sleep_accepted:
  "accepted slp tr d i \<Longrightarrow> py_sleep slp d i tr = Inr (tr @ [Sleep (scaled d i)])"
  by (auto simp: accepted_def py_sleep_def split: sum.splits dest: wait_time_scaled)

lemma py_sleep_Inr:
  "py_sleep slp d i tr = Inr tr' \<Longrightarrow> accepted slp tr d i \<and> tr' = tr @ [Sleep (scaled d i)]"
  by (auto simp: accepted_def py_sleep_def split: sum.splits option.splits dest: wait_time_scaled)

lemma py_sleep_Inl: "py_sleep slp d i tr = Inl e \<Longrightarrow> \<not> accepted slp tr d i"
  by (auto simp: accepted_def py_sleep_def split: sum.splits option.splits)

lemma py_sleep_refused: "\<not> accepted slp tr d i \<Longrightarrow> \<exists>e. py_sleep slp d i tr = Inl e"
  by (auto simp: accepted_def py_sleep_def split: sum.splits option.splits)

text \<open>
  The waits that the \<^verbatim>\<open>time.sleep\<close> of the examples accepts for an int delay, and the
  value of the wait for a float delay.
\<close>

lemma accepted_time_sleep_int:
  "accepted time_sleep tr (PyInt d) i = (0 \<le> d \<and> d * 2 ^ i \<le> 9223372036)"
proof -
  define w where "w = d * 2 ^ i"
  have "accepted time_sleep tr (PyInt d) i = (duration_error (PyInt w) = None)"
    by (simp add: accepted_def time_sleep_def w_def)
  also have "\<dots> = (0 \<le> w \<and> w \<le> 9223372036)" by auto
  also have "(0 \<le> w) = (0 \<le> d)" by (simp add: w_def zero_le_mult_iff)
  finally show ?thesis by (simp add: w_def)
qed

lemma accepted_time_sleep_upto:
  assumes "0 \<le> d" and "d * 2 ^ (n - 1) \<le> 9223372036" and "i < n"
  shows "accepted time_sleep tr (PyInt d) i"
proof -
  from assms(3) have "(2::int) ^ i \<le> 2 ^ (n - 1)" by (simp add: power_increasing)
  then have "d * 2 ^ i \<le> d * 2 ^ (n - 1)" using assms(1) by (rule mult_left_mono)
  with assms(1,2) show ?thesis by (simp add: accepted_time_sleep_int)
qed

lemma scaled_float_finite:
  "- float_max \<le> r * 2 ^ i \<Longrightarrow> r * 2 ^ i \<le> float_max \<Longrightarrow>
   scaled (PyFloat (Finite r)) i = PyFloat (Finite (r * 2 ^ i))"
  by simp

lemma scaled_float_upto:
  assumes "0 \<le> r" and "r * 2 ^ n \<le> float_max" and "i \<le> n"
  shows "scaled (PyFloat (Finite r)) i = PyFloat (Finite (r * 2 ^ i))"
proof -
  from assms(3) have "(2::rat) ^ i \<le> 2 ^ n" by (simp add: power_increasing)
  then have "r * 2 ^ i \<le> r * 2 ^ n" using assms(1) by (rule mult_left_mono)
  with assms(2) have le: "r * 2 ^ i \<le> float_max" by simp
  have "0 \<le> r * 2 ^ i" using assms(1) by simp
  moreover have "0 \<le> float_max" by (simp add: float_max_def)
  ultimately have "- float_max \<le> r * 2 ^ i" by linarith
  with le show ?thesis by (rule scaled_float_finite [rotated])
qed

lemma py_range_pos: "1 \<le> n \<Longrightarrow> \<exists>as. py_range n = 0 # as"
  by (simp add: py_range_def upt_conv_Cons)

lemma take_upt_le: "k \<le> n \<Longrightarrow> take k [0..<n] = [0..<k]"
  by (simp add: min_def)

lemma sorted_waits:
  "0 \<le> (d::'a::linordered_idom) \<Longrightarrow> sorted (map (\<lambda>i. d * 2 ^ i) [0..<k])"
proof -
  assume d: "0 \<le> d"
  have "sorted_wrt (\<lambda>i j. d * 2 ^ i \<le> d * 2 ^ j) [0..<k]"
  proof (rule sorted_wrt_mono_rel [OF _ sorted_wrt_upt])
    fix i j :: nat assume "i < j"
    then have "(2::'a) ^ i \<le> 2 ^ j" by (simp add: power_increasing)
    then show "d * 2 ^ i \<le> d * 2 ^ j" using d by (rule mult_left_mono)
  qed
  then show ?thesis by (simp add: sorted_wrt_map)
qed

lemma strict_sorted_waits:
  "0 < (d::'a::linordered_idom) \<Longrightarrow> sorted_wrt (<) (map (\<lambda>i. d * 2 ^ i) [0..<k])"
proof -
  assume d: "0 < d"
  have "sorted_wrt (\<lambda>i j. d * 2 ^ i < d * 2 ^ j) [0..<k]"
  proof (rule sorted_wrt_mono_rel [OF _ sorted_wrt_upt])
    fix i j :: nat assume "i < j"
    then have "(2::'a) ^ i < 2 ^ j" by (simp add: power_strict_increasing)
    then show "d * 2 ^ i < d * 2 ^ j" using d by simp
  qed
  then show ?thesis by (simp add: sorted_wrt_map)
qed

lemma sum_waits:
  "sum_list (map (\<lambda>i. (d::'a::comm_ring_1) * 2 ^ i) [0..<n]) = d * (2 ^ n - 1)"
  by (induction n) (simp_all add: algebra_simps)

lemma last_backoff:
  "0 < n \<Longrightarrow> last (backoff p d [0..<n]) = Sleep (scaled d (n - 1))"
  by (cases n) (simp_all add: backoff_append)

subsection \<open>Traces of the retry loop\<close>

text \<open>
  When every attempt fails and every wait is accepted, the loop makes all the attempts
  and leaves by its \<^verbatim>\<open>else\<close>.
\<close>

lemma retry_loop_failing:
  "(\<forall>k < length as. attempt_fails (srv (tr @ backoff p d (take k as) @ [Get p]))
        \<and> accepted slp (tr @ backoff p d (take k as) @ [Get p]) d (as ! k)) \<Longrightarrow>
   retry_loop srv slp d p as tr = (tr @ backoff p d as, Inr None)"
proof (induction as arbitrary: tr)
  case Nil
  then show ?case by simp
next
  case (Cons a as)
  from Cons.prems have "attempt_fails (srv (tr @ backoff p d (take 0 (a # as)) @ [Get p]))
      \<and> accepted slp (tr @ backoff p d (take 0 (a # as)) @ [Get p]) d ((a # as) ! 0)"
    by (metis length_greater_0_conv list.distinct(1))
  then have first: "attempt_fails (srv (tr @ [Get p]))"
    and acc: "accepted slp (tr @ [Get p]) d a"
    by simp_all
  have rest: "\<forall>k < length as.
      attempt_fails (srv ((tr @ [Get p, Sleep (scaled d a)]) @ backoff p d (take k as) @ [Get p]))
      \<and> accepted slp ((tr @ [Get p, Sleep (scaled d a)]) @ backoff p d (take k as) @ [Get p])
            d (as ! k)"
  proof (intro allI impI)
    fix k assume "k < length as"
    then have "Suc k < length (a # as)" by simp
    with Cons.prems have "attempt_fails (srv (tr @ backoff p d (take (Suc k) (a # as)) @ [Get p]))
        \<and> accepted slp (tr @ backoff p d (take (Suc k) (a # as)) @ [Get p]) d ((a # as) ! Suc k)"
      by blast
    then show "attempt_fails
        (srv ((tr @ [Get p, Sleep (scaled d a)]) @ backoff p d (take k as) @ [Get p]))
      \<and> accepted slp ((tr @ [Get p, Sleep (scaled d a)]) @ backoff p d (take k as) @ [Get p])
            d (as ! k)"
      by simp
  qed
  have ih: "retry_loop srv slp d p as (tr @ [Get p, Sleep (scaled d a)])
              = ((tr @ [Get p, Sleep (scaled d a)]) @ backoff p d as, Inr None)"
    by (rule Cons.IH [OF rest])
  have sl: "py_sleep slp d a (tr @ [Get p]) = Inr (tr @ [Get p, Sleep (scaled d a)])"
    using py_sleep_accepted [OF acc] by simp
  show ?case
  proof (cases "srv (tr @ [Get p])")
    case RequestError
    then show ?thesis using ih sl by simp
  next
    case (Body js)
    with first obtain st where "py_get js ''status'' JNull = Inr st" "st \<noteq> JStr ''SUCCESS''"
      by (auto split: sum.splits)
    then show ?thesis using Body ih sl by simp
  qed
qed

text \<open>A failed attempt whose wait is refused ends the loop by an exception.\<close>

lemma retry_loop_refused:
  "attempt_fails (srv (tr @ [Get p])) \<Longrightarrow> \<not> accepted slp (tr @ [Get p]) d a \<Longrightarrow>
   \<exists>e. retry_loop srv slp d p (a # as) tr = (tr @ [Get p], Inl e)"
proof -
  assume f: "attempt_fails (srv (tr @ [Get p]))" and n: "\<not> accepted slp (tr @ [Get p]) d a"
  from py_sleep_refused [OF n] obtain e where s: "py_sleep slp d a (tr @ [Get p]) = Inl e"
    by blast
  show ?thesis
  proof (cases "srv (tr @ [Get p])")
    case RequestError
    then show ?thesis using s by simp
  next
    case (Body js)
    with f obtain st where "py_get js ''status'' JNull = Inr st" "st \<noteq> JStr ''SUCCESS''"
      by (auto split: sum.splits)
    then show ?thesis using Body s by simp
  qed
qed

text \<open>
  In general the loop makes some number of failed attempts, each followed by its wait,
  and then either runs out or makes one more request, which is not followed by a wait.
\<close>

lemma retry_loop_shape:
  "retry_loop srv slp d p as tr = (tr', res) \<Longrightarrow>
   \<exists>k \<le> length as.
      tr' = tr @ backoff p d (take k as) @ (if res = Inr None then [] else [Get p])
    \<and> (\<forall>j < k. attempt_fails (srv (tr @ backoff p d (take j as) @ [Get p]))
               \<and> accepted slp (tr @ backoff p d (take j as) @ [Get p]) d (as ! j))
    \<and> (if res = Inr None then k = length as
        else k < length as
           \<and> (attempt_fails (srv (tr @ backoff p d (take k as) @ [Get p])) \<longrightarrow>
                \<not> accepted slp (tr @ backoff p d (take k as) @ [Get p]) d (as ! k)
                \<and> (\<exists>e. res = Inl e)))"
proof (induction as arbitrary: tr)
  case Nil
  then show ?case by auto
next
  case (Cons a as)
  let ?tr1 = "tr @ [Get p, Sleep (scaled d a)]"
  have step: ?case
    if run: "retry_loop srv slp d p as ?tr1 = (tr', res)"
      and f: "attempt_fails (srv (tr @ [Get p]))" and ac: "accepted slp (tr @ [Get p]) d a"
  proof -
    from Cons.IH [OF run] obtain k where k: "k \<le> length as"
      and tr': "tr' = ?tr1 @ backoff p d (take k as) @ (if res = Inr None then [] else [Get p])"
      and fl: "\<forall>j < k. attempt_fails (srv (?tr1 @ backoff p d (take j as) @ [Get p]))
                 \<and> accepted slp (?tr1 @ backoff p d (take j as) @ [Get p]) d (as ! j)"
      and en: "if res = Inr None then k = length as
               else k < length as
                 \<and> (attempt_fails (srv (?tr1 @ backoff p d (take k as) @ [Get p])) \<longrightarrow>
                      \<not> accepted slp (?tr1 @ backoff p d (take k as) @ [Get p]) d (as ! k)
                      \<and> (\<exists>e. res = Inl e))"
      by blast
    have "\<forall>j < Suc k. attempt_fails (srv (tr @ backoff p d (take j (a # as)) @ [Get p]))
             \<and> accepted slp (tr @ backoff p d (take j (a # as)) @ [Get p]) d ((a # as) ! j)"
    proof (intro allI impI)
      fix j assume "j < Suc k"
      show "attempt_fails (srv (tr @ backoff p d (take j (a # as)) @ [Get p]))
             \<and> accepted slp (tr @ backoff p d (take j (a # as)) @ [Get p]) d ((a # as) ! j)"
      proof (cases j)
        case 0
        then show ?thesis using f ac by simp
      next
        case (Suc j')
        with \<open>j < Suc k\<close> fl show ?thesis by simp
      qed
    qed
    with k tr' en show ?case
      by (intro exI [of _ "Suc k"]) (auto split: if_splits)
  qed
  have fail: ?case
    if f: "attempt_fails (srv (tr @ [Get p]))"
  proof (cases "py_sleep slp d a (tr @ [Get p])")
    case (Inl e)
    from retry_loop_refused [where srv = srv and tr = tr and p = p and as = as and slp = slp
        and d = d and a = a, OF f py_sleep_Inl [OF Inl]]
      Cons.prems Inl f
    have "tr' = tr @ [Get p]" "\<exists>e. res = Inl e" by auto
    then show ?thesis using f py_sleep_Inl [OF Inl] by (intro exI [of _ 0]) auto
  next
    case (Inr tr1)
    from py_sleep_Inr [OF Inr] have ac: "accepted slp (tr @ [Get p]) d a" and t: "tr1 = ?tr1"
      by simp_all
    have "retry_loop srv slp d p as ?tr1 = (tr', res)"
    proof (cases "srv (tr @ [Get p])")
      case RequestError
      with Cons.prems Inr t show ?thesis by simp
    next
      case (Body js)
      with f obtain st where "py_get js ''status'' JNull = Inr st" "st \<noteq> JStr ''SUCCESS''"
        by (auto split: sum.splits)
      with Body Cons.prems Inr t show ?thesis by simp
    qed
    then show ?thesis using f ac by (rule step)
  qed
  show ?case
  proof (cases "attempt_fails (srv (tr @ [Get p]))")
    case True
    then show ?thesis by (rule fail)
  next
    case False
    then obtain js where b: "srv (tr @ [Get p]) = Body js" by (cases "srv (tr @ [Get p])") auto
    with False Cons.prems have "tr' = tr @ [Get p]" "res \<noteq> Inr None"
      by (auto split: sum.splits if_splits)
    then show ?thesis using False by (intro exI [of _ 0]) auto
  qed
qed

lemma retry_loop_extends:
  "retry_loop srv slp d p as tr = (tr', res) \<Longrightarrow> prefix tr tr'"
proof -
  assume "retry_loop srv slp d p as tr = (tr', res)"
  from retry_loop_shape [OF this] show ?thesis by auto
qed

lemma retry_loop_first_get:
  "retry_loop srv slp d p (a # as) tr = (tr', res) \<Longrightarrow> prefix (tr @ [Get p]) tr'"
proof -
  assume run: "retry_loop srv slp d p (a # as) tr = (tr', res)"
  from retry_loop_shape [OF run] obtain k where k: "k \<le> length (a # as)"
    and tr': "tr' = tr @ backoff p d (take k (a # as)) @ (if res = Inr None then [] else [Get p])"
    and en: "if res = Inr None then k = length (a # as) else k < length (a # as)"
    by (auto split: if_splits)
  show ?thesis
  proof (cases k)
    case 0
    with en have "res \<noteq> Inr None" by (auto split: if_splits)
    with tr' 0 show ?thesis by simp
  next
    case (Suc k')
    with tr' show ?thesis by simp
  qed
qed

lemma fetch_loop_first_get:
  assumes "fetch_loop fuel srv slp args cursor acc tr = Some (tr', res)"
    and "1 \<le> max_retries args"
  shows "prefix (tr @ [Get (request_params args cursor)]) tr'"
  using assms
proof (induction fuel arbitrary: cursor acc tr)
  case 0
  then show ?case by simp
next
  case (Suc fuel)
  from Suc.prems(2) obtain as where as: "py_range (max_retries args) = 0 # as"
    using py_range_pos by blast
  obtain tr1 r1 where rl:
    "retry_loop srv slp (delay args) (request_params args cursor) (0 # as) tr = (tr1, r1)"
    by fastforce
  have p1: "prefix (tr @ [Get (request_params args cursor)]) tr1"
    using retry_loop_first_get [OF rl] .
  have "tr' = tr1 \<or> (\<exists>c a. fetch_loop fuel srv slp args c a tr1 = Some (tr', res))"
    using Suc.prems(1) rl as
    by (auto split: sum.splits option.splits if_splits)
  then show ?case
  proof
    assume "tr' = tr1"
    with p1 show ?thesis by simp
  next
    assume "\<exists>c a. fetch_loop fuel srv slp args c a tr1 = Some (tr', res)"
    then obtain c a where "fetch_loop fuel srv slp args c a tr1 = Some (tr', res)" by blast
    from Suc.IH [OF this Suc.prems(2)] have "prefix tr1 tr'" by (rule append_prefixD)
    with p1 show ?thesis by (rule prefix_order.trans)
  qed
qed

lemma replies_append:
  "replies srv pre (xs @ ys) = replies srv pre xs @ replies srv (pre @ xs) ys"
  by (induction srv pre xs rule: replies.induct) simp_all

lemma retry_loop_ready:
  "retry_loop srv slp d p as tr = (tr', Inr (Some js)) \<Longrightarrow>
   \<exists>ext fs. tr' = tr @ ext \<and> replies srv tr ext = fs @ [Body js]
      \<and> filter is_ready fs = [] \<and> is_ready (Body js)"
proof (induction as arbitrary: tr)
  case Nil
  then show ?case by simp
next
  case (Cons a as)
  let ?tr1 = "tr @ [Get p, Sleep (scaled d a)]"
  have step: ?case
    if run: "retry_loop srv slp d p as ?tr1 = (tr', Inr (Some js))"
      and nr: "\<not> is_ready (srv (tr @ [Get p]))"
  proof -
    from Cons.IH [OF run] obtain ext fs where
      e: "tr' = ?tr1 @ ext" "replies srv ?tr1 ext = fs @ [Body js]"
         "filter is_ready fs = []" "is_ready (Body js)"
      by blast
    have "tr' = tr @ ([Get p, Sleep (scaled d a)] @ ext)" using e(1) by simp
    moreover have "replies srv tr ([Get p, Sleep (scaled d a)] @ ext)
                    = (srv (tr @ [Get p]) # fs) @ [Body js]"
      using e(2) by (simp add: replies_append)
    moreover have "filter is_ready (srv (tr @ [Get p]) # fs) = []"
      using e(3) nr by simp
    ultimately show ?thesis using e(4) by blast
  qed
  have slept: "retry_loop srv slp d p as ?tr1 = (tr', Inr (Some js))"
    if "(case py_sleep slp d a (tr @ [Get p]) of
           Inl e \<Rightarrow> (tr @ [Get p], Inl e)
         | Inr tr1 \<Rightarrow> retry_loop srv slp d p as tr1) = (tr', Inr (Some js))"
  proof (cases "py_sleep slp d a (tr @ [Get p])")
    case (Inl e)
    with that show ?thesis by simp
  next
    case (Inr tr1)
    from py_sleep_Inr [OF Inr] that Inr show ?thesis by simp
  qed
  show ?case
  proof (cases "srv (tr @ [Get p])")
    case RequestError
    with Cons.prems have "retry_loop srv slp d p as ?tr1 = (tr', Inr (Some js))"
      by (intro slept) simp
    then show ?thesis using step RequestError by simp
  next
    case (Body js')
    show ?thesis
    proof (cases "py_get js' ''status'' JNull")
      case (Inl e)
      with Body Cons.prems show ?thesis by simp
    next
      case (Inr st)
      show ?thesis
      proof (cases "st = JStr ''SUCCESS''")
        case True
        with Body Inr Cons.prems have "tr' = tr @ [Get p]" "js' = js" by auto
        then have "tr' = tr @ [Get p]" "replies srv tr [Get p] = [] @ [Body js]"
          "filter is_ready [] = []" "is_ready (Body js)"
          using Body Inr True by simp_all
        then show ?thesis by blast
      next
        case False
        with Body Inr Cons.prems have "retry_loop srv slp d p as ?tr1 = (tr', Inr (Some js))"
          by (intro slept) simp
        then show ?thesis using step Body Inr False by simp
      qed
    qed
  qed
qed

lemma fetch_loop_complete:
  "fetch_loop fuel srv slp args cursor acc tr = Some (tr', Inr (Some rs)) \<Longrightarrow>
   \<exists>ext pages recs. tr' = tr @ ext
      \<and> filter is_ready (replies srv tr ext) = map Body pages
      \<and> pages \<noteq> []
      \<and> map parse_records pages = map Inr recs
      \<and> rs = acc @ concat recs
      \<and> list_all has_next (butlast pages)
      \<and> \<not> has_next (last pages)
      \<and> last (replies srv tr ext) = Body (last pages)"
proof (induction fuel arbitrary: cursor acc tr)
  case 0
  then show ?case by simp
next
  case (Suc fuel)
  obtain tr1 r1 where rl:
    "retry_loop srv slp (delay args) (request_params args cursor) (py_range (max_retries args)) tr
       = (tr1, r1)"
    by fastforce
  from Suc.prems rl obtain js records h c' where
    r1: "r1 = Inr (Some js)" and pr: "parse_records js = Inr records"
    and h: "py_get js ''hasNextPage'' (JBool False) = Inr h"
    and c': "py_get js ''nextCursor'' JNull = Inr c'"
    and rest: "if truthy h
               then fetch_loop fuel srv slp args c' (acc @ records) tr1 = Some (tr', Inr (Some rs))
               else tr' = tr1 \<and> rs = acc @ records"
    by (auto split: sum.splits option.splits if_splits)
  from retry_loop_ready [OF rl [unfolded r1]] obtain ext1 fs where
    e1: "tr1 = tr @ ext1" "replies srv tr ext1 = fs @ [Body js]"
        "filter is_ready fs = []" "is_ready (Body js)"
    by blast
  show ?case
  proof (cases "truthy h")
    case False
    with rest have "tr' = tr @ ext1" "rs = acc @ concat [records]" using e1(1) by simp_all
    moreover have "filter is_ready (replies srv tr ext1) = map Body [js]"
      using e1 by simp
    moreover have "map parse_records [js] = map Inr [records]" using pr by simp
    moreover have "\<not> has_next (last [js])" using h False by (simp add: has_next_def)
    moreover have "last (replies srv tr ext1) = Body (last [js])" using e1(2) by simp
    moreover have "list_all has_next (butlast [js])" "[js] \<noteq> []" by simp_all
    ultimately show ?thesis by blast
  next
    case True
    with rest have "fetch_loop fuel srv slp args c' (acc @ records) tr1 = Some (tr', Inr (Some rs))"
      by simp
    from Suc.IH [OF this] obtain ext pages recs where
      e: "tr' = tr1 @ ext" "filter is_ready (replies srv tr1 ext) = map Body pages"
         "pages \<noteq> []" "map parse_records pages = map Inr recs"
         "rs = (acc @ records) @ concat recs" "list_all has_next (butlast pages)"
         "\<not> has_next (last pages)" "last (replies srv tr1 ext) = Body (last pages)"
      by blast
    have ne: "replies srv tr1 ext \<noteq> []" using e(2,3) by auto
    have "tr' = tr @ (ext1 @ ext)" using e(1) e1(1) by simp
    moreover have "filter is_ready (replies srv tr (ext1 @ ext)) = map Body (js # pages)"
      using e1 e(2) by (simp add: replies_append)
    moreover have "map parse_records (js # pages) = map Inr (records # recs)"
      using pr e(4) by simp
    moreover have "rs = acc @ concat (records # recs)" using e(5) by simp
    moreover have "list_all has_next (butlast (js # pages))"
      using e(3,6) h True by (simp add: has_next_def)
    moreover have "\<not> has_next (last (js # pages))" using e(3,7) by simp
    moreover have "last (replies srv tr (ext1 @ ext)) = Body (last (js # pages))"
      using e(3,8) ne e1(1) by (simp add: replies_append)
    moreover have "js # pages \<noteq> []" by simp
    ultimately show ?thesis by blast
  qed
qed

lemma fetch_loop_exhausted:
  assumes "\<forall>i < nat (max_retries args).
           attempt_fails (srv (tr @ backoff (request_params args cursor) (delay args) [0..<i]
                                @ [Get (request_params args cursor)]))
         \<and> accepted slp (tr @ backoff (request_params args cursor) (delay args) [0..<i]
                                @ [Get (request_params args cursor)]) (delay args) i"
  shows "fetch_loop (Suc fuel) srv slp args cursor all_records tr =
           Some (tr @ backoff (request_params args cursor) (delay args) [0..<nat (max_retries args)],
                 Inr None)"
proof -
  let ?n = "nat (max_retries args)"
  have "\<forall>k < length [0..<?n].
      attempt_fails (srv (tr @ backoff (request_params args cursor) (delay args) (take k [0..<?n])
                                @ [Get (request_params args cursor)]))
    \<and> accepted slp (tr @ backoff (request_params args cursor) (delay args) (take k [0..<?n])
                                @ [Get (request_params args cursor)]) (delay args) ([0..<?n] ! k)"
    using assms by (simp add: take_upt_le)
  from retry_loop_failing [OF this] show ?thesis
    by (simp add: py_range_def)
qed

text \<open>Evaluation of the concrete runs, among them runs with a float delay.\<close>

lemma py_range_3: "py_range 3 = [0, 1, 2]"
  by (simp add: py_range_def upt_rec)

lemma py_range_1: "py_range 1 = [0]"
  by (simp add: py_range_def)

lemmas page_defs = first_page_def cursorless_page_def pending_page_def unparsable_page_def
  example_page_def

lemmas run_defs = fetch_data_def demo_args_def request_params_def py_range_3 py_range_1
  py_sleep_def time_sleep_def parse_records_def parse_metric_def sent_cursor_def
  base_params_def

lemma float_delay_example:
  "fetch_data (Suc 0) (\<lambda>tr. RequestError) time_sleep (demo_args\<lparr>delay := PyFloat (Finite (1 / 2))\<rparr>)
     = Some ([Get base_params, Sleep (PyFloat (Finite (1 / 2))),
              Get base_params, Sleep (PyFloat (Finite 1)),
              Get base_params, Sleep (PyFloat (Finite 2))], Inr None)
   \<and> fetch_data (Suc 0) (\<lambda>tr. RequestError) time_sleep (demo_args\<lparr>delay := PyFloat NaN\<rparr>)
     = Some ([Get base_params], Inl (ValueError ''Invalid value NaN (not a number)''))
   \<and> fetch_data (Suc 0) (\<lambda>tr. RequestError) time_sleep (demo_args\<lparr>delay := PyFloat (Finite (- 1 / 2))\<rparr>)
     = Some ([Get base_params], Inl (ValueError ''sleep length must be non-negative''))
   \<and> fetch_data (Suc 0) (\<lambda>tr. RequestError) time_sleep (demo_args\<lparr>delay := PyFloat (Finite 10000000000)\<rparr>)
     = Some ([Get base_params], Inl OverflowError)
   \<and> wait_time (PyFloat (Finite 0)) 1024 = Inl OverflowError
   \<and> wait_time (PyInt 0) 1024 = Inr (PyInt 0)"
  by (simp add: run_defs float_max_def)

subsection \<open>All the records or none\<close>

text \<open>
  C1: when \<^verbatim>\<open>fetch_data\<close> returns a list of records, that list is the concatenation, in
  the order of the requests, of the flattened records of every page that was answered
  with status \<^verbatim>\<open>"SUCCESS"\<close> during the call; every one of these pages flattened without
  an exception, each but the last asked for a next page, the last did not, and the last
  answer of the call is that last page. And at any page, whatever has been accumulated
  so far, the call returns \<^verbatim>\<open>None\<close> when the attempts for the page run out and when
  the page is ready but its flattening raises.
\<close>

theorem fetch_data_complete_or_none:
  "(fetch_data fuel srv slp args = Some (tr, Inr (Some rs)) \<longrightarrow>
      (\<exists>pages recs.
          rs = concat recs
        \<and> map parse_records pages = map Inr recs
        \<and> filter is_ready (replies srv [] tr) = map Body pages
        \<and> pages \<noteq> []
        \<and> list_all has_next (butlast pages)
        \<and> \<not> has_next (last pages)
        \<and> last (replies srv [] tr) = Body (last pages)))
   \<and> (retry_loop srv slp (delay args) (request_params args cursor) (py_range (max_retries args)) tr0
         = (tr1, Inr None) \<longrightarrow>
       fetch_loop (Suc fuel) srv slp args cursor all_records tr0 = Some (tr1, Inr None))
   \<and> (retry_loop srv slp (delay args) (request_params args cursor) (py_range (max_retries args)) tr0
         = (tr1, Inr (Some js)) \<and> parse_records js = Inl e \<longrightarrow>
       fetch_loop (Suc fuel) srv slp args cursor all_records tr0 = Some (tr1, Inr None))"
proof (intro conjI impI)
  assume "fetch_data fuel srv slp args = Some (tr, Inr (Some rs))"
  then have "fetch_loop fuel srv slp args JNull [] [] = Some (tr, Inr (Some rs))"
    by (simp add: fetch_data_def)
  from fetch_loop_complete [OF this] show "\<exists>pages recs.
          rs = concat recs
        \<and> map parse_records pages = map Inr recs
        \<and> filter is_ready (replies srv [] tr) = map Body pages
        \<and> pages \<noteq> []
        \<and> list_all has_next (butlast pages)
        \<and> \<not> has_next (last pages)
        \<and> last (replies srv [] tr) = Body (last pages)"
    by auto
qed simp_all

text \<open>
  Two pages give the records of both, in order; a second page that never becomes
  ready, and a second page that does not flatten, give \<^verbatim>\<open>None\<close> although the first
  page's record was accumulated.
\<close>

theorem fetch_data_complete_or_none_witness:
  "fetch_data 2 two_page_server time_sleep demo_args =
     Some ([Get base_params, Get (base_params @ [(''cursor'', JStr ''c2'')])],
           Inr (Some (concat [[first_record], [example_record]])))
   \<and> map parse_records [first_page, example_page] = map Inr [[first_record], [example_record]]
   \<and> filter is_ready (replies two_page_server []
         [Get base_params, Get (base_params @ [(''cursor'', JStr ''c2'')])])
       = map Body [first_page, example_page]
   \<and> has_next first_page
   \<and> \<not> has_next example_page
   \<and> retry_loop stalling_server time_sleep (delay demo_args)
         (request_params demo_args (JStr ''c2''))
         (py_range (max_retries demo_args)) [Get base_params, Sleep (PyInt 5), Get base_params]
       = ([Get base_params, Sleep (PyInt 5), Get base_params,
           Get (base_params @ [(''cursor'', JStr ''c2'')]), Sleep (PyInt 5),
           Get (base_params @ [(''cursor'', JStr ''c2'')]), Sleep (PyInt 10),
           Get (base_params @ [(''cursor'', JStr ''c2'')]), Sleep (PyInt 20)], Inr None)
   \<and> fetch_loop (Suc 0) stalling_server time_sleep demo_args (JStr ''c2'') [first_record]
         [Get base_params, Sleep (PyInt 5), Get base_params]
       = Some ([Get base_params, Sleep (PyInt 5), Get base_params,
                Get (base_params @ [(''cursor'', JStr ''c2'')]), Sleep (PyInt 5),
                Get (base_params @ [(''cursor'', JStr ''c2'')]), Sleep (PyInt 10),
                Get (base_params @ [(''cursor'', JStr ''c2'')]), Sleep (PyInt 20)], Inr None)
   \<and> retry_loop (\<lambda>tr. Body unparsable_page) time_sleep (delay demo_args)
         (request_params demo_args (JStr ''c2'')) (py_range (max_retries demo_args))
         [Get base_params]
       = ([Get base_params, Get (base_params @ [(''cursor'', JStr ''c2'')])],
          Inr (Some unparsable_page))
   \<and> parse_records unparsable_page = Inl TypeError
   \<and> fetch_loop (Suc 0) (\<lambda>tr. Body unparsable_page) time_sleep demo_args (JStr ''c2'')
         [first_record] [Get base_params]
       = Some ([Get base_params, Get (base_params @ [(''cursor'', JStr ''c2'')])], Inr None)"
  using fetch_data_complete_or_none
    [where fuel = "Suc 0" and srv = two_page_server and slp = time_sleep and args = demo_args
       and tr = "[Get base_params, Get (base_params @ [(''cursor'', JStr ''c2'')])]"
       and rs = "[first_record, example_record]"]
    fetch_data_complete_or_none
    [where fuel = 0 and srv = stalling_server and slp = time_sleep and args = demo_args
       and cursor = "JStr ''c2''"
       and ?tr0.0 = "[Get base_params, Sleep (PyInt 5), Get base_params]"
       and all_records = "[first_record]"]
    fetch_data_complete_or_none
    [where fuel = 0 and srv = "\<lambda>tr. Body unparsable_page" and slp = time_sleep
       and args = demo_args
       and cursor = "JStr ''c2''" and ?tr0.0 = "[Get base_params]"
       and all_records = "[first_record]" and js = unparsable_page and e = TypeError]
  by (simp add: run_defs page_defs two_page_server_def stalling_server_def numeral_2_eq_2
        first_record_def example_record_def has_next_def)

subsection \<open>A page that asks for more without a cursor\<close>

text \<open>
  C2 says that a page with \<^verbatim>\<open>hasNextPage\<close> true and \<^verbatim>\<open>nextCursor\<close> missing or
  \<^verbatim>\<open>null\<close> makes \<^verbatim>\<open>fetch_data\<close> fail. The program has no such check. What holds
  (C2 as amended): after such a page, once it is ready and flattened, the loop goes on
  to its next round with the cursor unset and the page's records kept; the query
  parameters of that round are those of the very first request, without a cursor; and
  when at least one attempt is allowed, the next event of any finished call is a request
  with these parameters.
\<close>

theorem missing_cursor_continues:
  assumes "retry_loop srv slp (delay args) (request_params args cursor)
             (py_range (max_retries args)) tr = (tr', Inr (Some js))"
    and "parse_records js = Inr recs"
    and "py_get js ''hasNextPage'' (JBool False) = Inr h"
    and "truthy h"
    and "py_get js ''nextCursor'' JNull = Inr JNull"
  shows "fetch_loop (Suc fuel) srv slp args cursor all_records tr
           = fetch_loop fuel srv slp args JNull (all_records @ recs) tr'
    \<and> request_params args JNull =
         [(''start_date'', JStr (start_date args)), (''end_date'', JStr (end_date args)),
          (''identifier'', JStr (identifier args))]
    \<and> (\<forall>tr'' res. 1 \<le> max_retries args
          \<and> fetch_loop (Suc fuel) srv slp args cursor all_records tr = Some (tr'', res)
         \<longrightarrow> prefix (tr' @ [Get (request_params args JNull)]) tr'')"
proof -
  have eq: "fetch_loop (Suc fuel) srv slp args cursor all_records tr
           = fetch_loop fuel srv slp args JNull (all_records @ recs) tr'"
    using assms by simp
  then show ?thesis
    using fetch_loop_first_get [of fuel srv slp args JNull "all_records @ recs" tr']
    by (auto simp: request_params_def)
qed

theorem missing_cursor_continues_witness:
  "retry_loop cursorless_server time_sleep (delay demo_args) (request_params demo_args JNull)
       (py_range (max_retries demo_args)) [] = ([Get base_params], Inr (Some cursorless_page))
   \<and> parse_records cursorless_page = Inr [first_record]
   \<and> py_get cursorless_page ''hasNextPage'' (JBool False) = Inr (JBool True)
   \<and> truthy (JBool True)
   \<and> py_get cursorless_page ''nextCursor'' JNull = Inr JNull
   \<and> fetch_loop (Suc (Suc 0)) cursorless_server time_sleep demo_args JNull [] []
       = fetch_loop (Suc 0) cursorless_server time_sleep demo_args JNull ([] @ [first_record])
           [Get base_params]
   \<and> 1 \<le> max_retries demo_args
   \<and> fetch_loop (Suc (Suc 0)) cursorless_server time_sleep demo_args JNull [] []
       = Some ([Get base_params, Get base_params], Inr (Some [first_record, example_record]))
   \<and> prefix ([Get base_params] @ [Get (request_params demo_args JNull)])
        [Get base_params, Get base_params]"
proof -
  have h1: "retry_loop cursorless_server time_sleep (delay demo_args)
       (request_params demo_args JNull)
       (py_range (max_retries demo_args)) [] = ([Get base_params], Inr (Some cursorless_page))"
    by (simp add: run_defs page_defs cursorless_server_def)
  have h2: "parse_records cursorless_page = Inr [first_record]"
    by (simp add: run_defs page_defs first_record_def)
  have h3: "py_get cursorless_page ''hasNextPage'' (JBool False) = Inr (JBool True)"
    by (simp add: page_defs)
  have h4: "truthy (JBool True)" by simp
  have h5: "py_get cursorless_page ''nextCursor'' JNull = Inr JNull"
    by (simp add: page_defs)
  have run: "fetch_loop (Suc (Suc 0)) cursorless_server time_sleep demo_args JNull [] []
       = Some ([Get base_params, Get base_params], Inr (Some [first_record, example_record]))"
    by (simp add: run_defs page_defs cursorless_server_def first_record_def example_record_def)
  have mr: "1 \<le> max_retries demo_args" by (simp add: demo_args_def)
  have c1: "fetch_loop (Suc (Suc 0)) cursorless_server time_sleep demo_args JNull [] []
       = fetch_loop (Suc 0) cursorless_server time_sleep demo_args JNull ([] @ [first_record])
           [Get base_params]"
    using missing_cursor_continues [OF h1 h2 h3 h4 h5, of "Suc 0" "[]"] by (rule conjunct1)
  have p: "prefix ([Get base_params] @ [Get (request_params demo_args JNull)])
        [Get base_params, Get base_params]"
    by (simp add: run_defs)
  show ?thesis by (intro conjI h1 h2 h3 h4 h5 c1 mr run p)
qed

text \<open>
  C2 as stated fails: the first page asks for more and names no cursor, and the call
  requests the same parameters again and returns the records of both answers.
\<close>

theorem missing_cursor_counterexample:
  "cursorless_server [Get (request_params demo_args JNull)] = Body cursorless_page
   \<and> py_get cursorless_page ''status'' JNull = Inr (JStr ''SUCCESS'')
   \<and> py_get cursorless_page ''hasNextPage'' (JBool False) = Inr (JBool True)
   \<and> py_get cursorless_page ''nextCursor'' JNull = Inr JNull
   \<and> fetch_data 2 cursorless_server time_sleep demo_args =
       Some ([Get base_params, Get base_params], Inr (Some [first_record, example_record]))"
  by (simp add: run_defs page_defs cursorless_server_def numeral_2_eq_2
        first_record_def example_record_def)

subsection \<open>Retries run out\<close>

text \<open>
  C3 says that \<^verbatim>\<open>max_retries\<close> failed attempts for a page make \<^verbatim>\<open>fetch_data\<close> return
  \<^verbatim>\<open>None\<close> after exactly \<^verbatim>\<open>max_retries\<close> requests. The program hands every wait to
  \<^verbatim>\<open>time.sleep\<close> unchecked, and an exception of \<^verbatim>\<open>time.sleep\<close> leaves the function.
  What holds (C3 as amended): at any page of the pagination (any cursor, any records
  accumulated, any trace so far), if the remote side fails each of the \<^verbatim>\<open>max_retries\<close>
  attempts made for the page, by an exception or by a status that is not
  \<^verbatim>\<open>"SUCCESS"\<close>, and each wait \<^verbatim>\<open>delay * (2 ** i)\<close> for \<open>i\<close> below \<^verbatim>\<open>max_retries\<close> is
  computed and accepted by \<^verbatim>\<open>time.sleep\<close>, then \<^verbatim>\<open>fetch_data\<close> returns \<^verbatim>\<open>None\<close>, and the
  events of the page are exactly \<^verbatim>\<open>max_retries\<close> requests with the page's parameters,
  the attempt numbers starting from zero again. (CPython's \<^verbatim>\<open>time.sleep\<close> refuses a
  negative wait, a NaN and a wait of more than 9223372036 seconds.)
\<close>

theorem retries_exhausted:
  assumes "\<forall>i < nat (max_retries args).
           attempt_fails (srv (tr @ backoff (request_params args cursor) (delay args) [0..<i]
                                @ [Get (request_params args cursor)]))
         \<and> accepted slp (tr @ backoff (request_params args cursor) (delay args) [0..<i]
                                @ [Get (request_params args cursor)]) (delay args) i"
  shows "fetch_loop (Suc fuel) srv slp args cursor all_records tr =
           Some (tr @ backoff (request_params args cursor) (delay args)
                        [0..<nat (max_retries args)], Inr None)
    \<and> gets (backoff (request_params args cursor) (delay args) [0..<nat (max_retries args)])
        = replicate (nat (max_retries args)) (request_params args cursor)
    \<and> int (length (gets (backoff (request_params args cursor) (delay args)
                            [0..<nat (max_retries args)]))) = max 0 (max_retries args)"
  using fetch_loop_exhausted [OF assms]
  by (simp add: gets_backoff map_replicate_const)

text \<open>
  The first page takes two attempts; the second page still gets three, with waits of
  5, 10 and 20 seconds.
\<close>

theorem retries_exhausted_witness:
  "attempt_fails (stalling_server ([Get base_params, Sleep (PyInt 5), Get base_params]
         @ [Get (base_params @ [(''cursor'', JStr ''c2'')])]))
   \<and> accepted time_sleep ([Get base_params, Sleep (PyInt 5), Get base_params]
         @ [Get (base_params @ [(''cursor'', JStr ''c2'')])]) (delay demo_args) 0
   \<and> fetch_loop (Suc 0) stalling_server time_sleep demo_args (JStr ''c2'') [first_record]
         [Get base_params, Sleep (PyInt 5), Get base_params]
       = Some ([Get base_params, Sleep (PyInt 5), Get base_params,
                Get (base_params @ [(''cursor'', JStr ''c2'')]), Sleep (PyInt 5),
                Get (base_params @ [(''cursor'', JStr ''c2'')]), Sleep (PyInt 10),
                Get (base_params @ [(''cursor'', JStr ''c2'')]), Sleep (PyInt 20)], Inr None)
   \<and> int (length (gets (backoff (base_params @ [(''cursor'', JStr ''c2'')]) (PyInt 5) [0..<3])))
       = 3"
proof -
  have h: "\<forall>i < nat (max_retries demo_args).
      attempt_fails (stalling_server ([Get base_params, Sleep (PyInt 5), Get base_params]
        @ backoff (request_params demo_args (JStr ''c2'')) (delay demo_args) [0..<i]
        @ [Get (request_params demo_args (JStr ''c2''))]))
    \<and> accepted time_sleep ([Get base_params, Sleep (PyInt 5), Get base_params]
        @ backoff (request_params demo_args (JStr ''c2'')) (delay demo_args) [0..<i]
        @ [Get (request_params demo_args (JStr ''c2''))]) (delay demo_args) i"
  proof (intro allI impI conjI)
    fix i assume "i < nat (max_retries demo_args)"
    then have "i < 3" by (simp add: demo_args_def)
    then have "accepted time_sleep ([Get base_params, Sleep (PyInt 5), Get base_params]
        @ backoff (request_params demo_args (JStr ''c2'')) (delay demo_args) [0..<i]
        @ [Get (request_params demo_args (JStr ''c2''))]) (PyInt 5) i"
      by (intro accepted_time_sleep_upto [where n = 3]) simp_all
    then show "accepted time_sleep ([Get base_params, Sleep (PyInt 5), Get base_params]
        @ backoff (request_params demo_args (JStr ''c2'')) (delay demo_args) [0..<i]
        @ [Get (request_params demo_args (JStr ''c2''))]) (delay demo_args) i"
      by (simp add: demo_args_def)
  qed (simp add: stalling_server_def sent_cursor_def request_params_def pending_page_def)
  have r3: "[0..<nat (max_retries demo_args)] = [0, 1, 2]"
    by (simp add: demo_args_def upt_rec)
  have u3: "[0..<3] = [0, 1, 2::nat]" by (simp add: upt_rec)
  have c: "fetch_loop (Suc 0) stalling_server time_sleep demo_args (JStr ''c2'')
         [first_record] [Get base_params, Sleep (PyInt 5), Get base_params]
       = Some ([Get base_params, Sleep (PyInt 5), Get base_params,
                Get (base_params @ [(''cursor'', JStr ''c2'')]), Sleep (PyInt 5),
                Get (base_params @ [(''cursor'', JStr ''c2'')]), Sleep (PyInt 10),
                Get (base_params @ [(''cursor'', JStr ''c2'')]), Sleep (PyInt 20)], Inr None)"
    using retries_exhausted [OF h, where fuel = 0 and all_records = "[first_record]"]
    by (simp add: r3) (simp add: demo_args_def request_params_def base_params_def)
  have f: "attempt_fails (stalling_server ([Get base_params, Sleep (PyInt 5), Get base_params]
         @ [Get (base_params @ [(''cursor'', JStr ''c2'')])]))"
    by (simp add: stalling_server_def sent_cursor_def base_params_def pending_page_def)
  have a: "accepted time_sleep ([Get base_params, Sleep (PyInt 5), Get base_params]
         @ [Get (base_params @ [(''cursor'', JStr ''c2'')])]) (delay demo_args) 0"
    by (simp add: accepted_def time_sleep_def demo_args_def)
  have g: "int (length (gets (backoff (base_params @ [(''cursor'', JStr ''c2'')]) (PyInt 5)
              [0..<3]))) = 3"
    by (simp add: u3)
  show ?thesis by (intro conjI f a c g)
qed

text \<open>
  C3 as stated fails for a negative delay: the first failed attempt is followed by a
  \<^verbatim>\<open>ValueError\<close> of \<^verbatim>\<open>time.sleep\<close>, after one request of the three allowed.
\<close>

theorem retries_exhausted_counterexample:
  "attempt_fails (Body pending_page)
   \<and> max_retries (demo_args\<lparr>delay := PyInt (- 1)\<rparr>) = 3
   \<and> fetch_data (Suc 0) (\<lambda>tr. Body pending_page) time_sleep (demo_args\<lparr>delay := PyInt (- 1)\<rparr>)
       = Some ([Get base_params], Inl (ValueError ''sleep length must be non-negative''))"
  by (simp add: run_defs page_defs)

subsection \<open>The backoff schedule\<close>

text \<open>
  C4 says that every failed attempt \<open>i\<close> is followed by a blocking wait of exactly
  \<^verbatim>\<open>delay * 2 ** i\<close> seconds. The wait does not take place when the product or
  \<^verbatim>\<open>time.sleep\<close> raises. What holds (C4 as amended): every run of the retry loop
  consists of some number \<open>k\<close> of failed attempts, where attempt \<open>i\<close> (from zero) is a
  request followed, before anything else happens, by a wait of the value of
  \<^verbatim>\<open>delay * (2 ** i)\<close>, which \<^verbatim>\<open>time.sleep\<close> accepted; and then either of nothing more,
  when all \<^verbatim>\<open>max_retries\<close> attempts failed, or of one last request. If that last request
  failed too, its wait was refused and the exception left the loop. The wait depends
  only on the attempt number, not on whether the attempt failed by an exception or by
  its status. For an int delay the waits are exactly the ints \<^verbatim>\<open>delay * 2 ** i\<close>, and
  for a finite float delay that is not negative they are exactly the floats
  \<^verbatim>\<open>delay * 2 ** i\<close> as long as these are in the range of the floats; in both cases
  they are increasing when the delay is not negative, and strictly so when it is
  positive.
\<close>

theorem backoff_schedule:
  assumes "retry_loop srv slp (delay args) params (py_range (max_retries args)) tr = (tr', res)"
  shows "\<exists>k \<le> nat (max_retries args).
      tr' = tr @ backoff params (delay args) [0..<k] @ (if res = Inr None then [] else [Get params])
    \<and> (\<forall>i < k. attempt_fails (srv (tr @ backoff params (delay args) [0..<i] @ [Get params]))
               \<and> accepted slp (tr @ backoff params (delay args) [0..<i] @ [Get params])
                    (delay args) i)
    \<and> (if res = Inr None then k = nat (max_retries args)
        else k < nat (max_retries args)
           \<and> (attempt_fails (srv (tr @ backoff params (delay args) [0..<k] @ [Get params])) \<longrightarrow>
                \<not> accepted slp (tr @ backoff params (delay args) [0..<k] @ [Get params])
                    (delay args) k
                \<and> (\<exists>e. res = Inl e)))
    \<and> sleeps (backoff params (delay args) [0..<k]) = map (scaled (delay args)) [0..<k]
    \<and> (\<forall>d. delay args = PyInt d \<longrightarrow>
          sleeps (backoff params (delay args) [0..<k]) = map (\<lambda>i. PyInt (d * 2 ^ i)) [0..<k]
        \<and> (0 \<le> d \<longrightarrow> sorted (map (\<lambda>i. d * 2 ^ i) [0..<k]))
        \<and> (0 < d \<longrightarrow> sorted_wrt (<) (map (\<lambda>i. d * 2 ^ i) [0..<k])))
    \<and> (\<forall>r. delay args = PyFloat (Finite r) \<and> 0 \<le> r \<and> r * 2 ^ k \<le> float_max \<longrightarrow>
          sleeps (backoff params (delay args) [0..<k])
            = map (\<lambda>i. PyFloat (Finite (r * 2 ^ i))) [0..<k]
        \<and> sorted (map (\<lambda>i. r * 2 ^ i) [0..<k])
        \<and> (0 < r \<longrightarrow> sorted_wrt (<) (map (\<lambda>i. r * 2 ^ i) [0..<k])))"
proof -
  let ?n = "nat (max_retries args)"
  let ?d = "delay args"
  from retry_loop_shape [OF assms [unfolded py_range_def]]
  obtain k where k: "k \<le> ?n"
    and tr': "tr' = tr @ backoff params ?d (take k [0..<?n])
                @ (if res = Inr None then [] else [Get params])"
    and fl: "\<forall>j < k. attempt_fails (srv (tr @ backoff params ?d (take j [0..<?n]) @ [Get params]))
                \<and> accepted slp (tr @ backoff params ?d (take j [0..<?n]) @ [Get params])
                     ?d ([0..<?n] ! j)"
    and en: "if res = Inr None then k = length [0..<?n]
             else k < length [0..<?n]
               \<and> (attempt_fails (srv (tr @ backoff params ?d (take k [0..<?n]) @ [Get params]))
                    \<longrightarrow> \<not> accepted slp (tr @ backoff params ?d (take k [0..<?n]) @ [Get params])
                           ?d ([0..<?n] ! k)
                       \<and> (\<exists>e. res = Inl e))"
    by auto
  have tk: "take k [0..<?n] = [0..<k]" using k by (rule take_upt_le)
  have c1: "tr' = tr @ backoff params ?d [0..<k] @ (if res = Inr None then [] else [Get params])"
    using tr' tk by simp
  have c2: "\<forall>i < k. attempt_fails (srv (tr @ backoff params ?d [0..<i] @ [Get params]))
               \<and> accepted slp (tr @ backoff params ?d [0..<i] @ [Get params]) ?d i"
  proof (intro allI impI)
    fix i assume i: "i < k"
    then have "take i [0..<?n] = [0..<i]" "[0..<?n] ! i = i" using k by (simp_all add: take_upt_le)
    with fl i show "attempt_fails (srv (tr @ backoff params ?d [0..<i] @ [Get params]))
               \<and> accepted slp (tr @ backoff params ?d [0..<i] @ [Get params]) ?d i"
      by metis
  qed
  have c3: "if res = Inr None then k = ?n
        else k < ?n
           \<and> (attempt_fails (srv (tr @ backoff params ?d [0..<k] @ [Get params])) \<longrightarrow>
                \<not> accepted slp (tr @ backoff params ?d [0..<k] @ [Get params]) ?d k
                \<and> (\<exists>e. res = Inl e))"
  proof (cases "res = Inr None")
    case True
    with en show ?thesis by simp
  next
    case False
    with en have "k < ?n" by simp
    then have "[0..<?n] ! k = k" by simp
    with en False tk show ?thesis by simp
  qed
  have c4: "sleeps (backoff params ?d [0..<k]) = map (scaled ?d) [0..<k]"
    by (rule sleeps_backoff)
  have c5: "\<forall>d. ?d = PyInt d \<longrightarrow>
          sleeps (backoff params ?d [0..<k]) = map (\<lambda>i. PyInt (d * 2 ^ i)) [0..<k]
        \<and> (0 \<le> d \<longrightarrow> sorted (map (\<lambda>i. d * 2 ^ i) [0..<k]))
        \<and> (0 < d \<longrightarrow> sorted_wrt (<) (map (\<lambda>i. d * 2 ^ i) [0..<k]))"
    by (simp add: sleeps_backoff sorted_waits strict_sorted_waits)
  have c6: "\<forall>r. ?d = PyFloat (Finite r) \<and> 0 \<le> r \<and> r * 2 ^ k \<le> float_max \<longrightarrow>
          sleeps (backoff params ?d [0..<k]) = map (\<lambda>i. PyFloat (Finite (r * 2 ^ i))) [0..<k]
        \<and> sorted (map (\<lambda>i. r * 2 ^ i) [0..<k])
        \<and> (0 < r \<longrightarrow> sorted_wrt (<) (map (\<lambda>i. r * 2 ^ i) [0..<k]))"
  proof (intro allI impI)
    fix r assume r: "?d = PyFloat (Finite r) \<and> 0 \<le> r \<and> r * 2 ^ k \<le> float_max"
    then have "\<And>i. i \<in> set [0..<k] \<Longrightarrow> scaled (PyFloat (Finite r)) i = PyFloat (Finite (r * 2 ^ i))"
      by (intro scaled_float_upto [where n = k]) simp_all
    then have "map (scaled (PyFloat (Finite r))) [0..<k] = map (\<lambda>i. PyFloat (Finite (r * 2 ^ i))) [0..<k]"
      by (intro map_cong) simp_all
    with r show "sleeps (backoff params ?d [0..<k]) = map (\<lambda>i. PyFloat (Finite (r * 2 ^ i))) [0..<k]
        \<and> sorted (map (\<lambda>i. r * 2 ^ i) [0..<k])
        \<and> (0 < r \<longrightarrow> sorted_wrt (<) (map (\<lambda>i. r * 2 ^ i) [0..<k]))"
      by (simp add: sleeps_backoff sorted_waits strict_sorted_waits)
  qed
  from k c1 c2 c3 c4 c5 c6 show ?thesis by blast
qed

text \<open>A request error, then a pending status, then success: waits of 5 and 10 seconds.\<close>

theorem backoff_schedule_witness:
  "retry_loop slow_server time_sleep (delay demo_args) base_params
       (py_range (max_retries demo_args)) []
       = ([Get base_params, Sleep (PyInt 5), Get base_params, Sleep (PyInt 10), Get base_params],
          Inr (Some example_page))
   \<and> [Get base_params, Sleep (PyInt 5), Get base_params, Sleep (PyInt 10), Get base_params]
       = [] @ backoff base_params (delay demo_args) [0..<2] @ [Get base_params]
   \<and> accepted time_sleep [Get base_params] (delay demo_args) 0
   \<and> accepted time_sleep [Get base_params, Sleep (PyInt 5), Get base_params] (delay demo_args) 1
   \<and> sleeps (backoff base_params (delay demo_args) [0..<2]) = [PyInt 5, PyInt 10]
   \<and> sorted [5 * 2 ^ 0, 5 * 2 ^ 1 :: int]"
proof -
  have h: "retry_loop slow_server time_sleep (delay demo_args) base_params
       (py_range (max_retries demo_args)) []
       = ([Get base_params, Sleep (PyInt 5), Get base_params, Sleep (PyInt 10), Get base_params],
          Inr (Some example_page))"
    by (simp add: demo_args_def py_range_3 py_sleep_def time_sleep_def slow_server_def
          pending_page_def example_page_def)
  have u2: "[0..<2] = [0, 1::nat]" by (simp add: upt_rec)
  have b: "[Get base_params, Sleep (PyInt 5), Get base_params, Sleep (PyInt 10), Get base_params]
       = [] @ backoff base_params (delay demo_args) [0..<2] @ [Get base_params]"
    by (simp add: u2 demo_args_def)
  have a0: "accepted time_sleep [Get base_params] (delay demo_args) 0"
    and a1: "accepted time_sleep [Get base_params, Sleep (PyInt 5), Get base_params]
               (delay demo_args) 1"
    by (simp_all add: accepted_def time_sleep_def demo_args_def)
  have s: "sleeps (backoff base_params (delay demo_args) [0..<2]) = [PyInt 5, PyInt 10]"
    using backoff_schedule [OF h] by (simp add: u2 demo_args_def)
  have o: "sorted [5 * 2 ^ 0, 5 * 2 ^ 1 :: int]" by simp
  show ?thesis by (intro conjI h b a0 a1 s o)
qed

text \<open>
  C4 as stated fails: with a delay of -5, or of -0.5, the first failed attempt is
  followed by a \<^verbatim>\<open>ValueError\<close>, and with a delay of 10000000000 by an
  \<^verbatim>\<open>OverflowError\<close>; in each case no wait takes place and the exception leaves
  \<^verbatim>\<open>fetch_data\<close>.
\<close>

theorem backoff_schedule_counterexample:
  "attempt_fails RequestError
   \<and> fetch_data (Suc 0) (\<lambda>tr. RequestError) time_sleep (demo_args\<lparr>delay := PyInt (- 5)\<rparr>)
       = Some ([Get base_params], Inl (ValueError ''sleep length must be non-negative''))
   \<and> fetch_data (Suc 0) (\<lambda>tr. RequestError) time_sleep
        (demo_args\<lparr>delay := PyFloat (Finite (- 1 / 2))\<rparr>)
       = Some ([Get base_params], Inl (ValueError ''sleep length must be non-negative''))
   \<and> fetch_data (Suc 0) (\<lambda>tr. RequestError) time_sleep
        (demo_args\<lparr>delay := PyInt 10000000000\<rparr>)
       = Some ([Get base_params], Inl OverflowError)"
  by (simp add: run_defs float_max_def)

subsection \<open>A single final page\<close>

text \<open>
  C6 says that a first response with status \<^verbatim>\<open>"SUCCESS"\<close> and \<^verbatim>\<open>hasNextPage\<close> false
  makes \<^verbatim>\<open>fetch_data\<close> return the flattened records of that page after one request.
  The flattening can raise, and then the call returns \<^verbatim>\<open>None\<close>. What holds (C6 as
  amended): when at least one attempt is allowed and the first answer is a body with
  status \<^verbatim>\<open>"SUCCESS"\<close> whose \<^verbatim>\<open>hasNextPage\<close> is false in Python's sense or missing,
  the call makes exactly one request and returns the flattened records of that page if
  \<^verbatim>\<open>parse_records\<close> returns them, and \<^verbatim>\<open>None\<close> if \<^verbatim>\<open>parse_records\<close> raises.
\<close>

theorem single_page_fetch:
  assumes "1 \<le> max_retries args"
    and "srv [Get (request_params args JNull)] = Body js"
    and "py_get js ''status'' JNull = Inr (JStr ''SUCCESS'')"
    and "py_get js ''hasNextPage'' (JBool False) = Inr h"
    and "\<not> truthy h"
  shows "fetch_data (Suc fuel) srv slp args =
           Some ([Get (request_params args JNull)],
                 Inr (case parse_records js of Inl e \<Rightarrow> None | Inr records \<Rightarrow> Some records))"
proof -
  from assms(1) obtain as where as: "py_range (max_retries args) = 0 # as"
    using py_range_pos by blast
  from assms(3) obtain kvs where "js = JDict kvs" by (cases js) simp_all
  then obtain c where "py_get js ''nextCursor'' JNull = Inr c" by simp
  then show ?thesis using assms(2-5) as
    by (simp add: fetch_data_def split: sum.splits)
qed

text \<open>The worked example: one request, and the record of the example.\<close>

theorem single_page_fetch_witness:
  "1 \<le> max_retries demo_args
   \<and> py_get example_page ''status'' JNull = Inr (JStr ''SUCCESS'')
   \<and> py_get example_page ''hasNextPage'' (JBool False) = Inr (JBool False)
   \<and> \<not> truthy (JBool False)
   \<and> parse_records example_page = Inr [example_record]
   \<and> fetch_data (Suc 0) (\<lambda>tr. Body example_page) time_sleep demo_args
       = Some ([Get (request_params demo_args JNull)], Inr (Some [example_record]))"
proof -
  have h1: "1 \<le> max_retries demo_args" by (simp add: demo_args_def)
  have h2: "(\<lambda>tr. Body example_page) [Get (request_params demo_args JNull)] = Body example_page"
    by simp
  have h3: "py_get example_page ''status'' JNull = Inr (JStr ''SUCCESS'')"
    by (simp add: example_page_def)
  have h4: "py_get example_page ''hasNextPage'' (JBool False) = Inr (JBool False)"
    by (simp add: example_page_def)
  have h5: "\<not> truthy (JBool False)" by simp
  have p: "parse_records example_page = Inr [example_record]"
    by (simp add: example_page_def example_record_def parse_records_def parse_metric_def)
  have c: "fetch_data (Suc 0) (\<lambda>tr. Body example_page) time_sleep demo_args
       = Some ([Get (request_params demo_args JNull)], Inr (Some [example_record]))"
    using single_page_fetch [OF h1 h2 h3 h4 h5, where fuel = 0 and slp = time_sleep]
    by (simp add: p)
  show ?thesis by (intro conjI h1 h3 h4 h5 p c)
qed

text \<open>
  C6 as stated fails on a final page whose \<^verbatim>\<open>campaigns\<close> is \<^verbatim>\<open>null\<close>: the call
  returns \<^verbatim>\<open>None\<close>, not a list of records.
\<close>

theorem single_page_fetch_counterexample:
  "py_get unparsable_page ''status'' JNull = Inr (JStr ''SUCCESS'')
   \<and> py_get unparsable_page ''hasNextPage'' (JBool False) = Inr (JBool False)
   \<and> parse_records unparsable_page = Inl TypeError
   \<and> fetch_data (Suc 0) (\<lambda>tr. Body unparsable_page) time_sleep demo_args
       = Some ([Get (request_params demo_args JNull)], Inr None)"
  by (simp add: run_defs page_defs)

subsection \<open>The wait after the last attempt\<close>

text \<open>
  C10 says that a page whose attempts all fail incurs \<^verbatim>\<open>max_retries\<close> waits, the last
  one after the last attempt. A wait that \<^verbatim>\<open>time.sleep\<close> refuses does not take place.
  What holds (C10 as amended): when every attempt for a page fails and each wait
  \<^verbatim>\<open>delay * (2 ** i)\<close> for \<open>i\<close> below \<^verbatim>\<open>max_retries\<close> is accepted by \<^verbatim>\<open>time.sleep\<close>, the
  page incurs as many waits as attempts, \<^verbatim>\<open>max_retries\<close> of them, the last one after the
  last failed attempt, just before \<^verbatim>\<open>None\<close> is returned. For an int delay, and for a
  finite float delay that is not negative while the products are in the range of the
  floats, the waits are exactly \<^verbatim>\<open>delay * 2 ** i\<close> and together they last
  \<^verbatim>\<open>delay * (2 ** max_retries - 1)\<close> seconds.
\<close>

theorem exhausted_page_sleeps:
  assumes "\<forall>i < nat (max_retries args).
           attempt_fails (srv (tr @ backoff (request_params args cursor) (delay args) [0..<i]
                                @ [Get (request_params args cursor)]))
         \<and> accepted slp (tr @ backoff (request_params args cursor) (delay args) [0..<i]
                                @ [Get (request_params args cursor)]) (delay args) i"
  shows "fetch_loop (Suc fuel) srv slp args cursor all_records tr =
           Some (tr @ backoff (request_params args cursor) (delay args) [0..<nat (max_retries args)],
                 Inr None)
    \<and> sleeps (backoff (request_params args cursor) (delay args) [0..<nat (max_retries args)])
        = map (scaled (delay args)) [0..<nat (max_retries args)]
    \<and> int (length (sleeps (backoff (request_params args cursor) (delay args)
                              [0..<nat (max_retries args)]))) = max 0 (max_retries args)
    \<and> (1 \<le> max_retries args \<longrightarrow>
         last (tr @ backoff (request_params args cursor) (delay args) [0..<nat (max_retries args)])
           = Sleep (scaled (delay args) (nat (max_retries args) - 1)))
    \<and> (\<forall>d. delay args = PyInt d \<longrightarrow>
          sleeps (backoff (request_params args cursor) (delay args) [0..<nat (max_retries args)])
            = map (\<lambda>i. PyInt (d * 2 ^ i)) [0..<nat (max_retries args)]
        \<and> sum_list (map (\<lambda>i. d * 2 ^ i) [0..<nat (max_retries args)])
            = d * (2 ^ nat (max_retries args) - 1))
    \<and> (\<forall>r. delay args = PyFloat (Finite r) \<and> 0 \<le> r
            \<and> r * 2 ^ nat (max_retries args) \<le> float_max \<longrightarrow>
          sleeps (backoff (request_params args cursor) (delay args) [0..<nat (max_retries args)])
            = map (\<lambda>i. PyFloat (Finite (r * 2 ^ i))) [0..<nat (max_retries args)]
        \<and> sum_list (map (\<lambda>i. r * 2 ^ i) [0..<nat (max_retries args)])
            = r * (2 ^ nat (max_retries args) - 1))"
proof -
  let ?n = "nat (max_retries args)"
  let ?p = "request_params args cursor"
  let ?d = "delay args"
  have c1: "fetch_loop (Suc fuel) srv slp args cursor all_records tr =
           Some (tr @ backoff ?p ?d [0..<?n], Inr None)"
    using assms by (rule fetch_loop_exhausted)
  have c2: "sleeps (backoff ?p ?d [0..<?n]) = map (scaled ?d) [0..<?n]"
    by (rule sleeps_backoff)
  have c3: "int (length (sleeps (backoff ?p ?d [0..<?n]))) = max 0 (max_retries args)"
    by (simp add: sleeps_backoff)
  have c4: "1 \<le> max_retries args \<longrightarrow>
         last (tr @ backoff ?p ?d [0..<?n]) = Sleep (scaled ?d (?n - 1))"
  proof
    assume "1 \<le> max_retries args"
    then have n: "0 < ?n" by simp
    then have "backoff ?p ?d [0..<?n] \<noteq> []"
      by (cases "?n") (simp_all add: backoff_append)
    then show "last (tr @ backoff ?p ?d [0..<?n]) = Sleep (scaled ?d (?n - 1))"
      using last_backoff [OF n] by simp
  qed
  have c5: "\<forall>d. ?d = PyInt d \<longrightarrow>
          sleeps (backoff ?p ?d [0..<?n]) = map (\<lambda>i. PyInt (d * 2 ^ i)) [0..<?n]
        \<and> sum_list (map (\<lambda>i. d * 2 ^ i) [0..<?n]) = d * (2 ^ ?n - 1)"
    by (simp add: sleeps_backoff sum_waits)
  have c6: "\<forall>r. ?d = PyFloat (Finite r) \<and> 0 \<le> r \<and> r * 2 ^ ?n \<le> float_max \<longrightarrow>
          sleeps (backoff ?p ?d [0..<?n]) = map (\<lambda>i. PyFloat (Finite (r * 2 ^ i))) [0..<?n]
        \<and> sum_list (map (\<lambda>i. r * 2 ^ i) [0..<?n]) = r * (2 ^ ?n - 1)"
  proof (intro allI impI)
    fix r assume r: "?d = PyFloat (Finite r) \<and> 0 \<le> r \<and> r * 2 ^ ?n \<le> float_max"
    then have "\<And>i. i \<in> set [0..<?n] \<Longrightarrow> scaled (PyFloat (Finite r)) i = PyFloat (Finite (r * 2 ^ i))"
      by (intro scaled_float_upto [where n = "?n"]) simp_all
    then have "map (scaled (PyFloat (Finite r))) [0..<?n] = map (\<lambda>i. PyFloat (Finite (r * 2 ^ i))) [0..<?n]"
      by (intro map_cong) simp_all
    with r show "sleeps (backoff ?p ?d [0..<?n]) = map (\<lambda>i. PyFloat (Finite (r * 2 ^ i))) [0..<?n]
        \<and> sum_list (map (\<lambda>i. r * 2 ^ i) [0..<?n]) = r * (2 ^ ?n - 1)"
      by (simp add: sleeps_backoff sum_waits)
  qed
  show ?thesis by (intro conjI c1 c2 c3 c4 c5 c6)
qed

text \<open>Three failed attempts: waits of 5, 10 and 20 seconds, 35 in all.\<close>

theorem exhausted_page_sleeps_witness:
  "attempt_fails RequestError
   \<and> accepted time_sleep [Get base_params] (delay demo_args) 0
   \<and> accepted time_sleep [Get base_params, Sleep (PyInt 5), Get base_params] (delay demo_args) 1
   \<and> accepted time_sleep [Get base_params, Sleep (PyInt 5), Get base_params, Sleep (PyInt 10),
        Get base_params] (delay demo_args) 2
   \<and> fetch_data (Suc 0) (\<lambda>tr. RequestError) time_sleep demo_args
       = Some ([Get base_params, Sleep (PyInt 5), Get base_params, Sleep (PyInt 10),
                Get base_params, Sleep (PyInt 20)], Inr None)
   \<and> sleeps [Get base_params, Sleep (PyInt 5), Get base_params, Sleep (PyInt 10),
             Get base_params, Sleep (PyInt 20)] = [PyInt 5, PyInt 10, PyInt 20]
   \<and> sum_list [5 * 2 ^ 0, 5 * 2 ^ 1, 5 * 2 ^ 2 :: int] = 5 * (2 ^ 3 - 1)"
proof -
  have a: "accepted time_sleep [Get base_params] (delay demo_args) 0"
    "accepted time_sleep [Get base_params, Sleep (PyInt 5), Get base_params] (delay demo_args) 1"
    "accepted time_sleep [Get base_params, Sleep (PyInt 5), Get base_params, Sleep (PyInt 10),
        Get base_params] (delay demo_args) 2"
    by (simp_all add: accepted_def time_sleep_def demo_args_def)
  have h: "\<forall>i < nat (max_retries demo_args).
      attempt_fails ((\<lambda>tr. RequestError) ([]
        @ backoff (request_params demo_args JNull) (delay demo_args) [0..<i]
        @ [Get (request_params demo_args JNull)]))
      \<and> accepted time_sleep ([]
        @ backoff (request_params demo_args JNull) (delay demo_args) [0..<i]
        @ [Get (request_params demo_args JNull)]) (delay demo_args) i"
  proof (intro allI impI)
    fix i assume "i < nat (max_retries demo_args)"
    then have "i < 3" by (simp add: demo_args_def)
    then have "accepted time_sleep ([]
        @ backoff (request_params demo_args JNull) (delay demo_args) [0..<i]
        @ [Get (request_params demo_args JNull)]) (PyInt 5) i"
      by (intro accepted_time_sleep_upto [where n = 3]) simp_all
    then show "attempt_fails ((\<lambda>tr. RequestError) ([]
        @ backoff (request_params demo_args JNull) (delay demo_args) [0..<i]
        @ [Get (request_params demo_args JNull)]))
      \<and> accepted time_sleep ([]
        @ backoff (request_params demo_args JNull) (delay demo_args) [0..<i]
        @ [Get (request_params demo_args JNull)]) (delay demo_args) i"
      by (simp add: demo_args_def)
  qed
  have r3: "[0..<nat (max_retries demo_args)] = [0, 1, 2]"
    by (simp add: demo_args_def upt_rec)
  have c: "fetch_data (Suc 0) (\<lambda>tr. RequestError) time_sleep demo_args
       = Some ([Get base_params, Sleep (PyInt 5), Get base_params, Sleep (PyInt 10),
                Get base_params, Sleep (PyInt 20)], Inr None)"
    using exhausted_page_sleeps [OF h, where fuel = 0 and all_records = "[]"]
    by (simp add: r3 fetch_data_def) (simp add: demo_args_def request_params_def base_params_def)
  have s: "sleeps [Get base_params, Sleep (PyInt 5), Get base_params, Sleep (PyInt 10),
             Get base_params, Sleep (PyInt 20)] = [PyInt 5, PyInt 10, PyInt 20]"
    by simp
  have t: "sum_list [5 * 2 ^ 0, 5 * 2 ^ 1, 5 * 2 ^ 2 :: int] = 5 * (2 ^ 3 - 1)" by simp
  show ?thesis by (intro conjI a c s t) simp
qed

text \<open>
  C10 as stated fails: with one attempt allowed and a delay of 10000000000 the failed
  attempt is followed by an \<^verbatim>\<open>OverflowError\<close>, and the page incurs no wait at all.
\<close>

theorem exhausted_page_sleeps_counterexample:
  "attempt_fails RequestError
   \<and> max_retries (demo_args\<lparr>max_retries := 1, delay := PyInt 10000000000\<rparr>) = 1
   \<and> fetch_data (Suc 0) (\<lambda>tr. RequestError) time_sleep
        (demo_args\<lparr>max_retries := 1, delay := PyInt 10000000000\<rparr>)
       = Some ([Get base_params], Inl OverflowError)
   \<and> sleeps [Get base_params] = []"
  by (simp add: run_defs)

section \<open>Loading\<close>

lemma submit_load_events:
  "submit_load client data table_id data_format = (evs, r) \<Longrightarrow>
   length (filter is_submission evs) \<le> 1 \<and> filter is_result_call evs = []"
  by (auto simp: submit_load_def split: if_splits table_data.splits)

subsection \<open>An unsupported format\<close>

text \<open>
  C7: when \<^verbatim>\<open>data_format\<close> is neither \<^verbatim>\<open>"df"\<close> nor \<^verbatim>\<open>"json"\<close>, \<^verbatim>\<open>load_to_bigquery\<close>
  raises a \<^verbatim>\<open>ValueError\<close> that names the format, whatever the client and the data are,
  and its only events are the two log lines: no submission and no wait for a result.
\<close>

theorem unsupported_format_fails_first:
  assumes "data_format \<noteq> ''df''" and "data_format \<noteq> ''json''"
  shows "load_to_bigquery client data dataset_id table_name formatted_date data_format =
           ([LogLoading (table_id_of dataset_id table_name formatted_date),
             LogFailed (table_id_of dataset_id table_name formatted_date)
               (ValueError (''Unsupported data_format: '' @ data_format))],
            Inl (ValueError (''Unsupported data_format: '' @ data_format)))
    \<and> filter is_submission
         (fst (load_to_bigquery client data dataset_id table_name formatted_date data_format)) = []
    \<and> filter is_result_call
         (fst (load_to_bigquery client data dataset_id table_name formatted_date data_format)) = []"
  using assms by (simp add: load_to_bigquery_def submit_load_def Let_def)

text \<open>The unit test's call with the format \<^verbatim>\<open>"csv"\<close>.\<close>

theorem unsupported_format_fails_first_witness:
  "''csv'' \<noteq> ''df'' \<and> ''csv'' \<noteq> ''json''
   \<and> load_to_bigquery stub_client (JsonRows []) ''test_dataset'' ''test_table'' ''20250701'' ''csv''
       = ([LogLoading ''test_dataset.test_table_20250701'',
           LogFailed ''test_dataset.test_table_20250701''
             (ValueError ''Unsupported data_format: csv'')],
          Inl (ValueError ''Unsupported data_format: csv''))"
  using unsupported_format_fails_first
    [of "''csv''" stub_client "JsonRows []" "''test_dataset''" "''test_table''" "''20250701''"]
  by (simp add: table_id_of_def)

subsection \<open>A failed load\<close>

text \<open>
  C9: when the submission raises, or the wait for the job's result raises,
  \<^verbatim>\<open>load_to_bigquery\<close> logs the failure with the table identifier and raises the very
  same exception, after one submission (and, in the second case, one wait) and nothing
  else. And whenever the call raises, for any format, its last event is the log line
  with the table identifier and the exception raised, and it made at most one
  submission and waited at most once.
\<close>

theorem load_failure_logged_and_reraised:
  assumes "table_id = table_id_of dataset_id table_name formatted_date"
  shows
   "(data = DataFrame cols rows
      \<and> load_table_from_dataframe client data table_id (df_job_config cols) = Inl e \<longrightarrow>
       load_to_bigquery client data dataset_id table_name formatted_date ''df'' =
         ([LogLoading table_id, CallLoadTableFromDataframe data table_id (df_job_config cols),
           LogFailed table_id e], Inl e))
    \<and> (data = DataFrame cols rows
      \<and> load_table_from_dataframe client data table_id (df_job_config cols) = Inr job
      \<and> job_result job = Inl e \<longrightarrow>
       load_to_bigquery client data dataset_id table_name formatted_date ''df'' =
         ([LogLoading table_id, CallLoadTableFromDataframe data table_id (df_job_config cols),
           CallResult (job_id job), LogFailed table_id e], Inl e))
    \<and> (load_table_from_json client data table_id json_job_config = Inl e \<longrightarrow>
       load_to_bigquery client data dataset_id table_name formatted_date ''json'' =
         ([LogLoading table_id, CallLoadTableFromJson data table_id json_job_config,
           LogFailed table_id e], Inl e))
    \<and> (load_table_from_json client data table_id json_job_config = Inr job
      \<and> job_result job = Inl e \<longrightarrow>
       load_to_bigquery client data dataset_id table_name formatted_date ''json'' =
         ([LogLoading table_id, CallLoadTableFromJson data table_id json_job_config,
           CallResult (job_id job), LogFailed table_id e], Inl e))
    \<and> (load_to_bigquery client data dataset_id table_name formatted_date data_format
         = (evs, Inl e) \<longrightarrow>
         last evs = LogFailed table_id e
       \<and> length (filter is_submission evs) \<le> 1
       \<and> length (filter is_result_call evs) \<le> 1)"
proof (intro conjI impI)
  assume run: "load_to_bigquery client data dataset_id table_name formatted_date data_format
         = (evs, Inl e)"
  obtain sevs r where sl: "submit_load client data table_id data_format = (sevs, r)"
    by fastforce
  from submit_load_events [OF sl] have
    sv: "length (filter is_submission sevs) \<le> 1" "filter is_result_call sevs = []"
    by simp_all
  from run sl assms have
    "evs = [LogLoading table_id] @ sevs @ [LogFailed table_id e]
     \<or> (\<exists>j. evs = [LogLoading table_id] @ sevs @ [CallResult j, LogFailed table_id e])"
    by (auto simp: load_to_bigquery_def Let_def split: sum.splits)
  then show "last evs = LogFailed table_id e"
    and "length (filter is_submission evs) \<le> 1"
    and "length (filter is_result_call evs) \<le> 1"
    using sv by auto
qed (auto simp: assms load_to_bigquery_def submit_load_def Let_def)

text \<open>A refused DataFrame submission, and a JSON job that fails when awaited.\<close>

theorem load_failure_logged_and_reraised_witness:
  "''test_dataset.test_table_20250701'' = table_id_of ''test_dataset'' ''test_table'' ''20250701''
   \<and> load_table_from_dataframe failing_client (DataFrame [''col_1''] [[JStr ''a'']])
        ''test_dataset.test_table_20250701'' (df_job_config [''col_1''])
       = Inl (ExternalError ''Forbidden'')
   \<and> load_to_bigquery failing_client (DataFrame [''col_1''] [[JStr ''a'']])
        ''test_dataset'' ''test_table'' ''20250701'' ''df''
       = ([LogLoading ''test_dataset.test_table_20250701'',
           CallLoadTableFromDataframe (DataFrame [''col_1''] [[JStr ''a'']])
             ''test_dataset.test_table_20250701'' (df_job_config [''col_1'']),
           LogFailed ''test_dataset.test_table_20250701'' (ExternalError ''Forbidden'')],
          Inl (ExternalError ''Forbidden''))
   \<and> load_to_bigquery failing_client (JsonRows [JDict [(''col_1'', JStr ''a'')]])
        ''test_dataset'' ''test_table'' ''20250701'' ''json''
       = ([LogLoading ''test_dataset.test_table_20250701'',
           CallLoadTableFromJson (JsonRows [JDict [(''col_1'', JStr ''a'')]])
             ''test_dataset.test_table_20250701'' json_job_config,
           CallResult ''job-1'',
           LogFailed ''test_dataset.test_table_20250701'' (ExternalError ''Quota exceeded'')],
          Inl (ExternalError ''Quota exceeded''))"
proof -
  have t: "''test_dataset.test_table_20250701'' = table_id_of ''test_dataset'' ''test_table'' ''20250701''"
    by (simp add: table_id_of_def)
  have a: "load_table_from_dataframe failing_client (DataFrame [''col_1''] [[JStr ''a'']])
        ''test_dataset.test_table_20250701'' (df_job_config [''col_1''])
       = Inl (ExternalError ''Forbidden'')"
    by (simp add: failing_client_def)
  have j: "load_table_from_json failing_client (JsonRows [JDict [(''col_1'', JStr ''a'')]])
        ''test_dataset.test_table_20250701'' json_job_config
       = Inr \<lparr>job_id = ''job-1'', job_result = Inl (ExternalError ''Quota exceeded'')\<rparr>"
    by (simp add: failing_client_def)
  note th1 = load_failure_logged_and_reraised
    [OF t, where client = failing_client and data = "DataFrame [''col_1''] [[JStr ''a'']]"
       and cols = "[''col_1'']" and rows = "[[JStr ''a'']]" and e = "ExternalError ''Forbidden''"]
  note th2 = load_failure_logged_and_reraised
    [OF t, where client = failing_client and data = "JsonRows [JDict [(''col_1'', JStr ''a'')]]"
       and job = "\<lparr>job_id = ''job-1'', job_result = Inl (ExternalError ''Quota exceeded'')\<rparr>"
       and e = "ExternalError ''Quota exceeded''"]
  have c1: "load_to_bigquery failing_client (DataFrame [''col_1''] [[JStr ''a'']])
        ''test_dataset'' ''test_table'' ''20250701'' ''df''
       = ([LogLoading ''test_dataset.test_table_20250701'',
           CallLoadTableFromDataframe (DataFrame [''col_1''] [[JStr ''a'']])
             ''test_dataset.test_table_20250701'' (df_job_config [''col_1'']),
           LogFailed ''test_dataset.test_table_20250701'' (ExternalError ''Forbidden'')],
          Inl (ExternalError ''Forbidden''))"
    using th1 a by blast
  have c2: "load_to_bigquery failing_client (JsonRows [JDict [(''col_1'', JStr ''a'')]])
        ''test_dataset'' ''test_table'' ''20250701'' ''json''
       = ([LogLoading ''test_dataset.test_table_20250701'',
           CallLoadTableFromJson (JsonRows [JDict [(''col_1'', JStr ''a'')]])
             ''test_dataset.test_table_20250701'' json_job_config,
           CallResult ''job-1'',
           LogFailed ''test_dataset.test_table_20250701'' (ExternalError ''Quota exceeded'')],
          Inl (ExternalError ''Quota exceeded''))"
    using th2 j by simp
  show ?thesis by (intro conjI t a c1 c2)
qed

end
